theory Spec2Isabelle
  imports Complex_Main "HOL-Library.Product_Lexorder" "HOL-Library.Multiset"
begin

section \<open>Severity scorer (backend/triage.py)\<close>

text \<open>
  Python strings are modelled as HOL strings over ASCII. \<open>str.lower\<close> maps the letters
  A to Z to a to z and leaves every other character alone; \<open>str.strip\<close> removes the
  leading and trailing whitespace characters (tab, line feed, vertical tab, form feed,
  carriage return, the separators 0x1c to 0x1f and the space). Python's unbounded
  integers are \<open>int\<close>.
\<close>

definition lower_char :: "char \<Rightarrow> char" where
  "lower_char c =
     (let n = (of_char c :: nat) in if 65 \<le> n \<and> n \<le> 90 then char_of (n + 32) else c)"

definition lower :: "string \<Rightarrow> string" where
  "lower s = map lower_char s"

definition is_space :: "char \<Rightarrow> bool" where
  "is_space c = ((of_char c :: nat) \<in> {9, 10, 11, 12, 13, 28, 29, 30, 31, 32})"

definition strip :: "string \<Rightarrow> string" where
  "strip s = rev (dropWhile is_space (rev (dropWhile is_space s)))"

text \<open>The table \<open>SYMPTOM_SEVERITY\<close>, in the order the dictionary literal lists it.\<close>

definition SYMPTOM_SEVERITY :: "(string \<times> (string \<times> int) list) list" where
  "SYMPTOM_SEVERITY =
     [(''critical'',
         [(''shortness of breath'', 8), (''chest pain'', 7), (''severe pain'', 7),
          (''difficulty breathing'', 8), (''unconsciousness'', 10), (''sudden weakness'', 7)]),
      (''urgent'',
         [(''fever'', 4), (''persistent cough'', 3), (''abdominal pain'', 5),
          (''headache with fever'', 5), (''vomiting'', 3), (''diarrhea'', 3),
          (''dizziness'', 4)]),
      (''stable'',
         [(''headache'', 2), (''nausea'', 2), (''mild pain'', 2), (''sore throat'', 1),
          (''runny nose'', 1)])]"

definition known_symptoms :: "string list" where
  "known_symptoms = map fst (concat (map snd SYMPTOM_SEVERITY))"

text \<open>
  The nested loop of \<open>get_triage_score\<close>: for every category and every known symptom of
  it, the base score is added when the known symptom is among the normalised symptoms.
\<close>

definition symptom_loop :: "string list \<Rightarrow> (string \<times> int) list \<Rightarrow> int \<Rightarrow> int" where
  "symptom_loop normalized_symptoms symptom_map score =
     fold (\<lambda>(known_symptom, base_score) sc.
             if known_symptom \<in> set normalized_symptoms then sc + base_score else sc)
          symptom_map score"

definition category_loop :: "string list \<Rightarrow> (string \<times> (string \<times> int) list) list \<Rightarrow> int \<Rightarrow> int" where
  "category_loop normalized_symptoms table score =
     fold (\<lambda>(category, symptom_map) sc. symptom_loop normalized_symptoms symptom_map sc)
          table score"

definition get_triage_score :: "string list \<Rightarrow> int \<Rightarrow> int" where
  "get_triage_score symptoms age =
     (let normalized_symptoms = map (\<lambda>s. strip (lower s)) symptoms;
          score = (if age < 1 then 5 else if age < 18 then 2 else if age \<ge> 65 then 4 else 0);
          score = category_loop normalized_symptoms SYMPTOM_SEVERITY score;
          score = (if ''chest pain'' \<in> set normalized_symptoms
                      \<and> ''shortness of breath'' \<in> set normalized_symptoms
                   then score + 5 else score);
          score = (if ''fever'' \<in> set normalized_symptoms
                      \<and> ''headache'' \<in> set normalized_symptoms
                   then score + 2 else score);
          score = (if ''severe pain'' \<in> set normalized_symptoms \<and> (age < 5 \<or> age > 75)
                   then score + 3 else score)
      in max 0 score)"

definition get_severity_level :: "int \<Rightarrow> string" where
  "get_severity_level score =
     (if score \<ge> 7 then ''Critical'' else if score \<ge> 4 then ''Urgent'' else ''Stable'')"

section \<open>Wait-time estimator (backend/ai_predictor.py)\<close>

text \<open>
  The estimator receives dictionaries whose values are typed \<open>Any\<close>. The values that
  occur are modelled by \<open>pyval\<close>: \<open>None\<close>, booleans, integers, strings and lists. A
  dictionary read with \<open>.get(key, default)\<close> is a record of optional fields, \<open>None\<close>
  standing for an absent key. Raised exceptions are values of \<open>py_error\<close>, returned on
  the left of a sum. Floating-point numbers are idealised as exact rationals.
\<close>

datatype pyval = NoneV | BoolV bool | IntV int | StrV string | ListV "pyval list"

datatype py_error = TypeError | ZeroDivisionError | OverflowError

text \<open>Truth value of an object, as \<open>not x\<close> tests it.\<close>

fun truthy :: "pyval \<Rightarrow> bool" where
  "truthy NoneV = False"
| "truthy (BoolV b) = b"
| "truthy (IntV n) = (n \<noteq> 0)"
| "truthy (StrV s) = (s \<noteq> [])"
| "truthy (ListV l) = (l \<noteq> [])"

text \<open>
  The numeric value an object has in an ordering comparison with an integer; the
  comparison raises \<open>TypeError\<close> for \<open>None\<close>, strings and lists.
\<close>

fun as_number :: "pyval \<Rightarrow> py_error + int" where
  "as_number (IntV n) = Inr n"
| "as_number (BoolV b) = Inr (if b then 1 else 0)"
| "as_number v = Inl TypeError"

text \<open>Lists are unhashable: using one as a dictionary key raises \<open>TypeError\<close>.\<close>

fun hashable :: "pyval \<Rightarrow> bool" where
  "hashable (ListV l) = False"
| "hashable v = True"

text \<open>\<open>d.get(key, default)\<close> on a dictionary with string keys.\<close>

definition dict_get :: "(string \<times> 'a) list \<Rightarrow> pyval \<Rightarrow> 'a \<Rightarrow> py_error + 'a" where
  "dict_get d key dflt =
     (if \<not> hashable key then Inl TypeError
      else case key of
             StrV s \<Rightarrow> (case map_of d s of Some v \<Rightarrow> Inr v | None \<Rightarrow> Inr dflt)
           | _ \<Rightarrow> Inr dflt)"

record patient_data =
  pd_severity_level :: "pyval option"
  pd_symptoms :: "pyval option"
  pd_age :: "pyval option"

text \<open>An entry of \<open>current_queue\<close>; only the keys the estimator reads are kept.\<close>

record queue_entry =
  qe_called :: "pyval option"
  qe_severity_level :: "pyval option"

text \<open>A reading of the wall clock: the instant in seconds, its hour and its day name.\<close>

record datetime =
  dt_instant :: int
  dt_hour :: int
  dt_day_name :: string

record features =
  f_queue_length :: int
  f_high_priority_in_queue :: int
  f_severity_level :: pyval
  f_symptom_complexity :: string
  f_symptom_count :: int
  f_age :: pyval
  f_time_of_day :: string
  f_day_of_week :: string
  f_hour :: int

text \<open>A record of \<open>historical_data\<close>.\<close>

record feedback =
  fb_actual_wait_time :: int
  fb_predicted_wait_time :: int
  fb_features :: features
  fb_timestamp :: int
  fb_accuracy :: rat

datatype factors = Features features | Fallback_Factors int pyval

record prediction =
  pr_predicted_wait_time :: int
  pr_confidence_score :: rat
  pr_factors_considered :: factors
  pr_insights :: "string list"
  pr_timestamp :: int

subsection \<open>The weights set up by the constructor\<close>

definition severity_multiplier :: "(string \<times> rat) list" where
  "severity_multiplier =
     [(''Critical'', 1 / 10), (''Urgent'', 3 / 10), (''Medium'', 6 / 10), (''Low'', 1)]"

definition queue_length_factor :: rat where
  "queue_length_factor = 8 / 10"

definition time_of_day_factor :: "(string \<times> rat) list" where
  "time_of_day_factor =
     [(''morning'', 12 / 10), (''afternoon'', 1), (''evening'', 8 / 10), (''night'', 6 / 10)]"

definition day_of_week_factor :: "(string \<times> rat) list" where
  "day_of_week_factor =
     [(''Monday'', 13 / 10), (''Tuesday'', 12 / 10), (''Wednesday'', 11 / 10),
      (''Thursday'', 1), (''Friday'', 9 / 10), (''Saturday'', 7 / 10), (''Sunday'', 6 / 10)]"

definition symptom_complexity :: "(string \<times> rat) list" where
  "symptom_complexity = [(''simple'', 8 / 10), (''moderate'', 1), (''complex'', 13 / 10)]"

subsection \<open>Feature extraction\<close>

definition not_called :: "queue_entry \<Rightarrow> bool" where
  "not_called p = (\<not> truthy (case qe_called p of None \<Rightarrow> BoolV False | Some v \<Rightarrow> v))"

definition is_high_priority :: "queue_entry \<Rightarrow> bool" where
  "is_high_priority p =
     (case qe_severity_level p of
        None \<Rightarrow> False
      | Some v \<Rightarrow> v = StrV ''Critical'' \<or> v = StrV ''Urgent'')"

definition extract_features :: "patient_data \<Rightarrow> queue_entry list \<Rightarrow> datetime \<Rightarrow> features" where
  "extract_features patient_data current_queue now =
     (let queue_length = int (length (filter not_called current_queue));
          high_priority_in_queue =
            int (length (filter (\<lambda>p. not_called p \<and> is_high_priority p) current_queue));
          severity = (case pd_severity_level patient_data of None \<Rightarrow> StrV ''Medium'' | Some v \<Rightarrow> v);
          symptoms = (case pd_symptoms patient_data of None \<Rightarrow> ListV [] | Some v \<Rightarrow> v);
          age = (case pd_age patient_data of None \<Rightarrow> IntV 30 | Some v \<Rightarrow> v);
          hour = dt_hour now;
          day_of_week = dt_day_name now;
          time_period =
            (if 6 \<le> hour \<and> hour < 12 then ''morning''
             else if 12 \<le> hour \<and> hour < 18 then ''afternoon''
             else if 18 \<le> hour \<and> hour < 24 then ''evening''
             else ''night'');
          symptom_count = (case symptoms of ListV l \<Rightarrow> int (length l) | _ \<Rightarrow> 1);
          complexity =
            (if symptom_count = 1 then ''simple''
             else if symptom_count \<le> 3 then ''moderate''
             else ''complex'')
      in \<lparr>f_queue_length = queue_length,
          f_high_priority_in_queue = high_priority_in_queue,
          f_severity_level = severity,
          f_symptom_complexity = complexity,
          f_symptom_count = symptom_count,
          f_age = age,
          f_time_of_day = time_period,
          f_day_of_week = day_of_week,
          f_hour = hour\<rparr>)"

subsection \<open>Base time\<close>

definition calculate_base_waiting_time :: "features \<Rightarrow> py_error + rat" where
  "calculate_base_waiting_time fs =
     (let base_time = 15 in
      case dict_get severity_multiplier (f_severity_level fs) (6 / 10) of
        Inl e \<Rightarrow> Inl e
      | Inr severity_mult \<Rightarrow>
          (let queue_factor = 1 + of_int (f_queue_length fs) * queue_length_factor in
           case dict_get time_of_day_factor (StrV (f_time_of_day fs)) 1 of
             Inl e \<Rightarrow> Inl e
           | Inr time_factor \<Rightarrow>
               (case dict_get day_of_week_factor (StrV (f_day_of_week fs)) 1 of
                  Inl e \<Rightarrow> Inl e
                | Inr day_factor \<Rightarrow>
                    (case dict_get symptom_complexity (StrV (f_symptom_complexity fs)) 1 of
                       Inl e \<Rightarrow> Inl e
                     | Inr complexity_factor \<Rightarrow>
                         Inr (base_time * severity_mult * queue_factor * time_factor
                                * day_factor * complexity_factor)))))"

subsection \<open>Feedback history\<close>

text \<open>The slice \<open>xs[-n:]\<close> for a positive \<open>n\<close>: the last \<open>n\<close> elements, or all of them.\<close>

definition last_n :: "nat \<Rightarrow> 'a list \<Rightarrow> 'a list" where
  "last_n n xs = drop (length xs - n) xs"

definition calculate_recent_accuracy :: "feedback list \<Rightarrow> rat" where
  "calculate_recent_accuracy historical_data =
     (if length historical_data < 5 then 8 / 10
      else let recent_data = last_n 10 historical_data;
               accuracies = map fb_accuracy recent_data
           in sum_list accuracies / of_nat (length accuracies))"

text \<open>
  \<open>update_model\<close>: the new record is built first, so the division by
  \<open>max(actual_wait_time, predicted_wait_time)\<close> raises before anything is appended.
\<close>

definition update_model ::
  "feedback list \<Rightarrow> int \<Rightarrow> int \<Rightarrow> features \<Rightarrow> int \<Rightarrow> py_error + feedback list" where
  "update_model historical_data actual_wait_time predicted_wait_time fs now =
     (if max actual_wait_time predicted_wait_time = 0 then Inl ZeroDivisionError
      else
        let record =
              \<lparr>fb_actual_wait_time = actual_wait_time,
               fb_predicted_wait_time = predicted_wait_time,
               fb_features = fs,
               fb_timestamp = now,
               fb_accuracy =
                 1 - of_int \<bar>actual_wait_time - predicted_wait_time\<bar>
                       / of_int (max actual_wait_time predicted_wait_time)\<rparr>;
            historical_data = historical_data @ [record]
        in Inr (if length historical_data > 100 then last_n 100 historical_data
                else historical_data))"

subsection \<open>Adjustments, confidence and insights\<close>

text \<open>
  The first step of \<open>_apply_ai_adjustments\<close>, the only place where the feedback history
  enters a prediction.
\<close>

definition historical_adjustment :: "feedback list \<Rightarrow> rat \<Rightarrow> rat" where
  "historical_adjustment historical_data base_time =
     (if length historical_data > 10 then
        let recent_accuracy = calculate_recent_accuracy historical_data in
        if recent_accuracy < 7 / 10 then
          let adjustment_factor = 1 + (7 / 10 - recent_accuracy) * (2 / 10)
          in base_time * adjustment_factor
        else base_time
      else base_time)"

definition apply_ai_adjustments :: "feedback list \<Rightarrow> rat \<Rightarrow> features \<Rightarrow> py_error + rat" where
  "apply_ai_adjustments historical_data base_time fs =
     (let base_time = historical_adjustment historical_data base_time;
          base_time = (if f_high_priority_in_queue fs > 3 then base_time * (12 / 10)
                       else base_time);
          base_time = (if f_time_of_day fs = ''morning'' \<and> f_queue_length fs > 5
                       then base_time * (13 / 10) else base_time)
      in case as_number (f_age fs) of
           Inl e \<Rightarrow> Inl e
         | Inr age \<Rightarrow> Inr (if age < 18 \<or> age > 65 then base_time * (9 / 10) else base_time))"

definition calculate_confidence :: "feedback list \<Rightarrow> features \<Rightarrow> rat" where
  "calculate_confidence historical_data fs =
     (let confidence = 8 / 10;
          confidence = (if length historical_data > 50 then confidence + 1 / 10 else confidence);
          confidence = (if f_queue_length fs > 10 then confidence - 1 / 10 else confidence);
          confidence = (if f_severity_level fs = StrV ''Critical'' \<and> f_queue_length fs > 5
                        then confidence - 2 / 10 else confidence)
      in max (1 / 10) (min 1 confidence))"

definition generate_insights :: "features \<Rightarrow> rat \<Rightarrow> string list" where
  "generate_insights fs predicted_time =
     (if f_severity_level fs = StrV ''Critical''
        then [''Critical priority - you'' @ [CHR 0x27] @ ''ll be seen very soon'']
      else if f_severity_level fs = StrV ''Urgent''
        then [''Urgent priority - shorter wait time expected'']
      else [])
     @ (if f_queue_length fs = 0 then [''No patients ahead - immediate attention'']
        else if f_queue_length fs \<le> 3 then [''Short queue - quick service expected'']
        else if f_queue_length fs \<le> 7 then [''Moderate queue - reasonable wait time'']
        else [''Longer queue - please be patient''])
     @ (if f_time_of_day fs = ''morning'' then [''Morning rush hour - busier than usual'']
        else if f_time_of_day fs = ''evening'' then [''Evening hours - typically less busy'']
        else [])
     @ (if f_symptom_complexity fs = ''complex''
        then [''Complex symptoms may require longer consultation'']
        else [])"

subsection \<open>Prediction and its fallback\<close>

definition fallback_prediction :: "patient_data \<Rightarrow> queue_entry list \<Rightarrow> datetime \<Rightarrow> prediction" where
  "fallback_prediction patient_data current_queue now =
     (let queue_length = int (length (filter not_called current_queue));
          severity = (case pd_severity_level patient_data of None \<Rightarrow> StrV ''Medium'' | Some v \<Rightarrow> v);
          wait_time =
            (if severity = StrV ''Critical'' then 5
             else if severity = StrV ''Urgent'' then 10 + queue_length * 2
             else if severity = StrV ''Medium'' then 20 + queue_length * 3
             else 30 + queue_length * 4)
      in \<lparr>pr_predicted_wait_time = max 1 wait_time,
          pr_confidence_score = 5 / 10,
          pr_factors_considered = Fallback_Factors queue_length severity,
          pr_insights = [''Using fallback prediction - AI temporarily unavailable''],
          pr_timestamp = dt_instant now\<rparr>)"

text \<open>\<open>int(x)\<close> on a float truncates towards zero.\<close>

definition py_int :: "rat \<Rightarrow> int" where
  "py_int x = (if 0 \<le> x then \<lfloor>x\<rfloor> else - \<lfloor>- x\<rfloor>)"

text \<open>
  The body of the \<open>try\<close> block of \<open>predict_waiting_time\<close>; an exception raised by one of
  the steps ends it.
\<close>

definition predict_try ::
  "feedback list \<Rightarrow> patient_data \<Rightarrow> queue_entry list \<Rightarrow> datetime \<Rightarrow> py_error + prediction" where
  "predict_try historical_data patient_data current_queue now =
     (let fs = extract_features patient_data current_queue now in
      case calculate_base_waiting_time fs of
        Inl e \<Rightarrow> Inl e
      | Inr base_time \<Rightarrow>
          (case apply_ai_adjustments historical_data base_time fs of
             Inl e \<Rightarrow> Inl e
           | Inr ai_adjusted_time \<Rightarrow>
               (let confidence = calculate_confidence historical_data fs;
                    insights = generate_insights fs ai_adjusted_time
                in Inr \<lparr>pr_predicted_wait_time = max 1 (py_int ai_adjusted_time),
                        pr_confidence_score = confidence,
                        pr_factors_considered = Features fs,
                        pr_insights = insights,
                        pr_timestamp = dt_instant now\<rparr>)))"

text \<open>The \<open>except Exception\<close> clause answers every exception with the fallback.\<close>

definition predict_waiting_time ::
  "feedback list \<Rightarrow> patient_data \<Rightarrow> queue_entry list \<Rightarrow> datetime \<Rightarrow> prediction" where
  "predict_waiting_time historical_data patient_data current_queue now =
     (case predict_try historical_data patient_data current_queue now of
        Inr result \<Rightarrow> result
      | Inl e \<Rightarrow> fallback_prediction patient_data current_queue now)"

section \<open>Queue and notification scheduling (backend/db.py, backend/app.py)\<close>

text \<open>
  A row of the table \<open>patients\<close>. Instants (\<open>queued_at\<close>, run dates) are integers, in
  seconds; the table is the list of its rows in insertion order.
\<close>

record patient =
  p_id :: int
  p_user_id :: int
  p_name :: string
  p_age :: int
  p_symptoms :: "string list"
  p_triage_score :: int
  p_severity_level :: string
  p_eta :: int
  p_queued_at :: int
  p_called :: bool
  p_lang_code :: string

record patient_create =
  pc_user_id :: int
  pc_name :: string
  pc_age :: int
  pc_symptoms :: "string list"
  pc_lang_code :: string

subsection \<open>Queue order\<close>

text \<open>
  \<open>order_by(Patient.triage_score.desc(), Patient.queued_at.asc())\<close>: the rows sorted by
  the key (score descending, arrival ascending), pairs being compared lexicographically.
  Rows that agree on both columns stay in table order.
\<close>

definition priority_key :: "patient \<Rightarrow> int \<times> int" where
  "priority_key p = (- p_triage_score p, p_queued_at p)"

definition priority_before :: "patient \<Rightarrow> patient \<Rightarrow> bool" where
  "priority_before p q =
     (p_triage_score p > p_triage_score q
      \<or> (p_triage_score p = p_triage_score q \<and> p_queued_at p < p_queued_at q))"

definition order_by_priority :: "patient list \<Rightarrow> patient list" where
  "order_by_priority rows = sort_key priority_key rows"

definition get_patients :: "patient list \<Rightarrow> patient list" where
  "get_patients db = order_by_priority db"

subsection \<open>Admission\<close>

text \<open>The primary key a new row gets: one more than the largest key in use.\<close>

definition next_id :: "patient list \<Rightarrow> int" where
  "next_id db = fold max (map p_id db) 0 + 1"

definition queue_entry_of :: "patient \<Rightarrow> queue_entry" where
  "queue_entry_of p =
     \<lparr>qe_called = Some (BoolV (p_called p)),
      qe_severity_level = Some (StrV (p_severity_level p))\<rparr>"

text \<open>
  The integer columns of the table are SQLite \<open>INTEGER\<close>s of 64 bits. Binding a Python
  integer outside that range to a statement raises \<open>OverflowError\<close>, and the statement
  is not executed.
\<close>

definition sqlite_integer :: "int \<Rightarrow> bool" where
  "sqlite_integer n = (- (2 ^ 63) \<le> n \<and> n < 2 ^ 63)"

text \<open>
  \<open>create_patient\<close>, as far as the table is concerned: the table it leaves, and either the
  response \<open>(id, eta, severity)\<close> or the exception it ends with. The first query binds
  the user id; \<open>db.commit()\<close> binds the age, the triage score and the ETA of the row it
  writes, and when it raises the table is as it was. \<open>now\<close> is the clock reading of the
  estimator and \<open>insert_time\<close> the one the column default \<open>queued_at\<close> takes when a row is
  inserted.
\<close>

definition create_patient ::
  "feedback list \<Rightarrow> datetime \<Rightarrow> int \<Rightarrow> patient_create \<Rightarrow> patient list
     \<Rightarrow> patient list \<times> (py_error + int \<times> int \<times> string)" where
  "create_patient historical_data now insert_time patient db =
     (if \<not> sqlite_integer (pc_user_id patient) then (db, Inl OverflowError)
      else
        let db_patient = find (\<lambda>r. p_user_id r = pc_user_id patient) db;
            triage_score = get_triage_score (pc_symptoms patient) (pc_age patient);
            severity_level = get_severity_level triage_score;
            current_patients = filter (\<lambda>p. p_called p = False) db;
            current_queue = map queue_entry_of current_patients;
            patient_data =
              \<lparr>pd_severity_level = Some (StrV severity_level),
               pd_symptoms = Some (ListV (map StrV (pc_symptoms patient))),
               pd_age = Some (IntV (pc_age patient))\<rparr>;
            ai_prediction = predict_waiting_time historical_data patient_data current_queue now;
            eta = pr_predicted_wait_time ai_prediction;
            commit_ok = (sqlite_integer (pc_age patient) \<and> sqlite_integer triage_score
                         \<and> sqlite_integer eta)
        in case db_patient of
             Some existing \<Rightarrow>
               if commit_ok then
                 (map (\<lambda>r. if p_id r = p_id existing
                            then r\<lparr>p_name := pc_name patient,
                                   p_age := pc_age patient,
                                   p_symptoms := pc_symptoms patient,
                                   p_triage_score := triage_score,
                                   p_severity_level := severity_level,
                                   p_eta := eta,
                                   p_lang_code := pc_lang_code patient\<rparr>
                            else r) db,
                  Inr (p_id existing, eta, severity_level))
               else (db, Inl OverflowError)
           | None \<Rightarrow>
               if commit_ok then
                 (let new_patient =
                        \<lparr>p_id = next_id db,
                         p_user_id = pc_user_id patient,
                         p_name = pc_name patient,
                         p_age = pc_age patient,
                         p_symptoms = pc_symptoms patient,
                         p_triage_score = triage_score,
                         p_severity_level = severity_level,
                         p_eta = eta,
                         p_queued_at = insert_time,
                         p_called = False,
                         p_lang_code = pc_lang_code patient\<rparr>
                  in (db @ [new_patient], Inr (next_id db, eta, severity_level)))
               else (db, Inl OverflowError))"

subsection \<open>The scheduler's job store\<close>

text \<open>
  A job id is the string \<open>"notify_" + str(patient.id)\<close>; \<open>Notify i\<close> stands for it, and
  \<open>Other s\<close> for an id \<open>s\<close> that does not start with \<open>"notify_"\<close>. A job carries its run
  date and the arguments bound by the closure.
\<close>

datatype job_id = Notify int | Other string

record job =
  j_id :: job_id
  j_run_date :: int
  j_args :: "int \<times> int \<times> string"

fun startswith_notify :: "job_id \<Rightarrow> bool" where
  "startswith_notify (Notify i) = True"
| "startswith_notify (Other s) = False"

definition remove_job :: "job_id \<Rightarrow> job list \<Rightarrow> job list" where
  "remove_job i jobs = filter (\<lambda>j. j_id j \<noteq> i) jobs"

text \<open>\<open>add_job\<close> with \<open>replace_existing=True\<close>: a job of the same id gives way.\<close>

definition add_job :: "job \<Rightarrow> job list \<Rightarrow> job list" where
  "add_job j jobs = filter (\<lambda>k. j_id k \<noteq> j_id j) jobs @ [j]"

subsection \<open>Rescheduling\<close>

text \<open>
  The wall clock is the sequence of its readings: \<open>clock k\<close> is what the \<open>k\<close>-th call of
  \<open>datetime.now()\<close> returns. One pass of the loop reads it twice, and a third time when
  the notification time is moved.
\<close>

text \<open>A clock that has not advanced between its readings: every reading is \<open>t\<close>.\<close>

definition constant_clock :: "int \<Rightarrow> nat \<Rightarrow> int" where
  "constant_clock t k = t"

definition NOTIFICATION_WINDOW :: nat where
  "NOTIFICATION_WINDOW = 3"

fun schedule_loop :: "(nat \<Rightarrow> int) \<Rightarrow> nat \<Rightarrow> patient list \<Rightarrow> job list \<Rightarrow> job list" where
  "schedule_loop clock k [] jobs = jobs"
| "schedule_loop clock k (patient # rest) jobs =
     (let notification_time = clock k + (p_eta patient - 5) * 60;
          moved = (notification_time < clock (k + 1));
          notification_time = (if moved then clock (k + 2) + 30 else notification_time)
      in schedule_loop clock (if moved then k + 3 else k + 2) rest
           (add_job \<lparr>j_id = Notify (p_id patient), j_run_date = notification_time,
                     j_args = (p_id patient, p_user_id patient, p_lang_code patient)\<rparr> jobs))"

definition reschedule_queue_notifications ::
  "(nat \<Rightarrow> int) \<Rightarrow> patient list \<Rightarrow> job list \<Rightarrow> job list" where
  "reschedule_queue_notifications clock db jobs =
     (let jobs = fold (\<lambda>job js. if startswith_notify (j_id job) then remove_job (j_id job) js
                                else js) jobs jobs;
          patients_in_queue = order_by_priority (filter (\<lambda>p. p_called p = False) db)
      in schedule_loop clock 0 (take NOTIFICATION_WINDOW patients_in_queue) jobs)"

text \<open>A job with its run date moved by \<open>d\<close> seconds; used to compare two schedules.\<close>

definition shift_job :: "int \<Rightarrow> job \<Rightarrow> job" where
  "shift_job d j = j\<lparr>j_run_date := j_run_date j + d\<rparr>"

section \<open>Properties of the severity scorer\<close>

lemma symptom_loop_mono:
  assumes "\<forall>(k, b) \<in> set m. 0 \<le> b"
  shows "sc \<le> symptom_loop ns m sc"
  using assms unfolding symptom_loop_def
proof (induction m arbitrary: sc)
  case Nil
  then show ?case by simp
next
  case (Cons kb m)
  obtain k b where kb: "kb = (k, b)" by (cases kb)
  have "0 \<le> b" using Cons.prems kb by simp
  moreover have "\<forall>(k, b) \<in> set m. 0 \<le> b" using Cons.prems by simp
  ultimately show ?case
    using Cons.IH [of "if k \<in> set ns then sc + b else sc"] kb by auto
qed

lemma category_loop_mono:
  assumes "\<forall>(c, m) \<in> set t. \<forall>(k, b) \<in> set m. 0 \<le> b"
  shows "sc \<le> category_loop ns t sc"
  using assms unfolding category_loop_def
proof (induction t arbitrary: sc)
  case Nil
  then show ?case by simp
next
  case (Cons cm t)
  obtain c m where cm: "cm = (c, m)" by (cases cm)
  have "sc \<le> symptom_loop ns m sc"
    using Cons.prems cm by (intro symptom_loop_mono) simp
  moreover have "symptom_loop ns m sc
      \<le> fold (\<lambda>(category, symptom_map) sc. symptom_loop ns symptom_map sc) t (symptom_loop ns m sc)"
    using Cons.prems by (intro Cons.IH) simp
  ultimately show ?case using cm by simp
qed

lemma table_weights_nonneg:
  "\<forall>(c, m) \<in> set SYMPTOM_SEVERITY. \<forall>(k, b) \<in> set m. 0 \<le> b"
  by (simp add: SYMPTOM_SEVERITY_def)

lemma symptom_loop_cong:
  assumes "\<forall>(k, b) \<in> set m. (k \<in> set ns) = (k \<in> set ns')"
  shows "symptom_loop ns m sc = symptom_loop ns' m sc"
  using assms unfolding symptom_loop_def
  by (induction m arbitrary: sc) (auto split: prod.splits)

lemma category_loop_cong:
  assumes "\<forall>(c, m) \<in> set t. \<forall>(k, b) \<in> set m. (k \<in> set ns) = (k \<in> set ns')"
  shows "category_loop ns t sc = category_loop ns' t sc"
  using assms unfolding category_loop_def
proof (induction t arbitrary: sc)
  case Nil
  then show ?case by simp
next
  case (Cons cm t)
  obtain c m where cm: "cm = (c, m)" by (cases cm)
  have "symptom_loop ns m sc = symptom_loop ns' m sc"
    using Cons.prems cm by (intro symptom_loop_cong) simp
  moreover have "fold (\<lambda>(category, symptom_map) sc. symptom_loop ns symptom_map sc) t (symptom_loop ns' m sc)
      = fold (\<lambda>(category, symptom_map) sc. symptom_loop ns' symptom_map sc) t (symptom_loop ns' m sc)"
    using Cons.prems by (intro Cons.IH) simp
  ultimately show ?case using cm by simp
qed

lemma known_symptoms_table:
  "\<forall>(c, m) \<in> set SYMPTOM_SEVERITY. \<forall>(k, b) \<in> set m. k \<in> set known_symptoms"
  by (simp add: SYMPTOM_SEVERITY_def known_symptoms_def)

lemma normalized_filter_known:
  assumes "k \<in> set known_symptoms"
  shows "(k \<in> set (map (\<lambda>s. strip (lower s))
                    (filter (\<lambda>s. strip (lower s) \<in> set known_symptoms) symptoms)))
         = (k \<in> set (map (\<lambda>s. strip (lower s)) symptoms))"
  using assms by auto

lemma get_triage_score_filter_known:
  "get_triage_score (filter (\<lambda>s. strip (lower s) \<in> set known_symptoms) symptoms) age
     = get_triage_score symptoms age"
proof -
  let ?n = "map (\<lambda>s. strip (lower s)) symptoms"
  let ?n' = "map (\<lambda>s. strip (lower s))
               (filter (\<lambda>s. strip (lower s) \<in> set known_symptoms) symptoms)"
  have mem: "(k \<in> set ?n') = (k \<in> set ?n)" if "k \<in> set known_symptoms" for k
    using that by (rule normalized_filter_known)
  have loop: "category_loop ?n' SYMPTOM_SEVERITY sc = category_loop ?n SYMPTOM_SEVERITY sc" for sc
    by (rule category_loop_cong) (use known_symptoms_table mem in fastforce)
  have known:
    "''chest pain'' \<in> set known_symptoms" "''shortness of breath'' \<in> set known_symptoms"
    "''fever'' \<in> set known_symptoms" "''headache'' \<in> set known_symptoms"
    "''severe pain'' \<in> set known_symptoms"
    by (simp_all add: known_symptoms_def SYMPTOM_SEVERITY_def)
  note m = known [THEN mem]
  show ?thesis
    unfolding get_triage_score_def Let_def loop m ..
qed

text \<open>
  The score before the final \<open>max(0, score)\<close> is never negative: every weight of the
  table and every bonus is positive.
\<close>

lemma category_loop_table_nonneg: "sc \<le> category_loop ns SYMPTOM_SEVERITY sc"
  by (rule category_loop_mono) (rule table_weights_nonneg)

text \<open>
  Claim C6. For every list of symptom strings and every integer age, negative ones
  included, \<open>get_triage_score\<close> returns a non-negative integer (the function is total:
  there is no exception to raise). Symptoms whose normalised form (lower case, surrounding
  whitespace removed) is not in the severity table contribute nothing: dropping them
  leaves the score unchanged. A negative age scores exactly as age 0 does.
\<close>

theorem get_triage_score_permissive:
  "0 \<le> get_triage_score symptoms age
   \<and> (age < 0 \<longrightarrow> get_triage_score symptoms age = get_triage_score symptoms 0)
   \<and> get_triage_score (filter (\<lambda>s. strip (lower s) \<in> set known_symptoms) symptoms) age
       = get_triage_score symptoms age"
proof (intro conjI impI)
  show "0 \<le> get_triage_score symptoms age"
    by (simp add: get_triage_score_def Let_def)
  show "get_triage_score symptoms age = get_triage_score symptoms 0" if "age < 0"
    using that by (simp add: get_triage_score_def Let_def)
  show "get_triage_score (filter (\<lambda>s. strip (lower s) \<in> set known_symptoms) symptoms) age
          = get_triage_score symptoms age"
    by (rule get_triage_score_filter_known)
qed

theorem get_triage_score_permissive_witness:
  "(- 3 :: int) < 0
   \<and> get_triage_score [''  Chest PAIN '', ''hiccups''] (- 3)
       = get_triage_score [''  Chest PAIN '', ''hiccups''] 0
   \<and> get_triage_score [''  Chest PAIN ''] (- 3)
       = get_triage_score [''  Chest PAIN '', ''hiccups''] (- 3)
   \<and> get_triage_score [''  Chest PAIN '', ''hiccups''] (- 3) = 12"
proof -
  have neg: "(- 3 :: int) < 0" by simp
  have keep: "filter (\<lambda>s. strip (lower s) \<in> set known_symptoms) [''  Chest PAIN '', ''hiccups'']
                = [''  Chest PAIN '']"
    by code_simp
  have val: "get_triage_score [''  Chest PAIN '', ''hiccups''] (- 3) = 12"
    by code_simp
  from get_triage_score_permissive [of "[''  Chest PAIN '', ''hiccups'']" "- 3"] neg keep val
  show ?thesis by simp
qed

text \<open>
  Claim C8. For the symptoms chest pain and shortness of breath at age 45 the score is
  the weight of chest pain (7) plus the weight of shortness of breath (8) plus the
  combination bonus (5), the age contributing nothing, and the level of that score is
  Critical.
\<close>

theorem chest_pain_shortness_of_breath_critical:
  "get_triage_score [''chest pain'', ''shortness of breath''] 45
     = get_triage_score [''chest pain''] 45 + get_triage_score [''shortness of breath''] 45 + 5
   \<and> get_triage_score [''chest pain''] 45 = 7
   \<and> get_triage_score [''shortness of breath''] 45 = 8
   \<and> get_triage_score [] 45 = 0
   \<and> get_triage_score [''chest pain'', ''shortness of breath''] 45 \<ge> 7
   \<and> get_severity_level (get_triage_score [''chest pain'', ''shortness of breath''] 45)
       = ''Critical''"
  by code_simp

section \<open>Properties of the wait-time estimator\<close>

subsection \<open>Feedback ingestion\<close>

lemma length_last_n: "length (last_n n xs) = min n (length xs)"
  by (simp add: last_n_def)

lemma last_n_all: "length xs \<le> n \<Longrightarrow> last_n n xs = xs"
  by (simp add: last_n_def)

lemma last_n_append: "length ys = n \<Longrightarrow> last_n n (xs @ ys) = ys"
  by (simp add: last_n_def)

text \<open>
  Away from the pair \<open>(0, 0)\<close>, feedback ingestion on non-negative inputs appends one
  record with the accuracy of the formula and keeps the last 100 records.
\<close>

lemma update_model_appends:
  assumes "0 \<le> actual" "0 \<le> predicted" "(actual, predicted) \<noteq> (0, 0)"
  shows "\<exists>r. update_model h actual predicted fs now = Inr (last_n 100 (h @ [r]))
           \<and> fb_accuracy r = 1 - of_int \<bar>actual - predicted\<bar> / of_int (max (max actual predicted) 1)
           \<and> fb_actual_wait_time r = actual \<and> fb_predicted_wait_time r = predicted"
proof -
  have m: "max actual predicted \<noteq> 0" "max (max actual predicted) 1 = max actual predicted"
    using assms by auto
  show ?thesis
    unfolding update_model_def Let_def using m by (auto simp: last_n_def)
qed

lemma update_model_evicts_oldest:
  assumes "update_model (oldest # h) actual predicted fs now = Inr h'" "length h = 99"
  shows "\<exists>r. h' = h @ [r]"
  using assms unfolding update_model_def Let_def
  by (auto simp: last_n_def split: if_splits)

text \<open>
  Claim C1 (fails on the code). The claim takes the accuracy to be
  \<open>1 - |actual - predicted| / max(actual, predicted, 1)\<close> and the operation never to
  raise. The code divides by \<open>max(actual, predicted)\<close>: for the non-negative pair
  \<open>(0, 0)\<close> the division raises \<open>ZeroDivisionError\<close> and no record is appended.
\<close>

theorem update_model_zero_division:
  "update_model historical_data 0 0 fs now = Inl ZeroDivisionError"
  by (simp add: update_model_def)

subsection \<open>Fallback\<close>

text \<open>The \<open>try\<close> block raises exactly on an unhashable severity or a non-numeric age.\<close>

lemma dict_get_StrV: "\<exists>v. dict_get d (StrV s) dflt = Inr v"
  by (simp add: dict_get_def split: option.splits)

lemma dict_get_raises: "(\<exists>e. dict_get d key dflt = Inl e) = (\<not> hashable key)"
  by (cases key) (simp_all add: dict_get_def split: option.splits)

lemma calculate_base_waiting_time_raises:
  "(\<exists>e. calculate_base_waiting_time fs = Inl e) = (\<not> hashable (f_severity_level fs))"
proof -
  obtain t where t: "dict_get time_of_day_factor (StrV (f_time_of_day fs)) 1 = Inr t"
    using dict_get_StrV [of time_of_day_factor "f_time_of_day fs" 1] by (elim exE)
  obtain d where d: "dict_get day_of_week_factor (StrV (f_day_of_week fs)) 1 = Inr d"
    using dict_get_StrV [of day_of_week_factor "f_day_of_week fs" 1] by (elim exE)
  obtain c where c: "dict_get symptom_complexity (StrV (f_symptom_complexity fs)) 1 = Inr c"
    using dict_get_StrV [of symptom_complexity "f_symptom_complexity fs" 1] by (elim exE)
  show ?thesis
    using dict_get_raises [of severity_multiplier "f_severity_level fs" "6 / 10"]
    by (auto simp: calculate_base_waiting_time_def t d c split: sum.splits)
qed

lemma apply_ai_adjustments_raises:
  "(\<exists>e. apply_ai_adjustments h b fs = Inl e) = (\<exists>e. as_number (f_age fs) = Inl e)"
  by (auto simp: apply_ai_adjustments_def Let_def split: sum.splits)

lemma predict_try_raises:
  "(\<exists>e. predict_try h pd q now = Inl e)
     = (let fs = extract_features pd q now
        in \<not> hashable (f_severity_level fs) \<or> (\<exists>e. as_number (f_age fs) = Inl e))"
proof -
  let ?fs = "extract_features pd q now"
  show ?thesis
  proof (cases "calculate_base_waiting_time ?fs")
    case (Inl e)
    then show ?thesis
      using calculate_base_waiting_time_raises [of ?fs]
      by (auto simp: predict_try_def Let_def)
  next
    case (Inr b)
    then have "hashable (f_severity_level ?fs)"
      using calculate_base_waiting_time_raises [of ?fs] by auto
    then show ?thesis
      using Inr apply_ai_adjustments_raises [of h b ?fs]
      by (auto simp: predict_try_def Let_def split: sum.splits)
  qed
qed

text \<open>
  Claim C2. On every input on which the body of the \<open>try\<close> block raises,
  \<open>predict_waiting_time\<close> does not raise but returns the fallback prediction. Its wait
  time depends on the severity and the number of non-served queue entries only, by a
  linear formula with a fixed base and a fixed increment per entry for each level
  (Critical 5 and 0, Urgent 10 and 2, Medium 20 and 3, any other value 30 and 4); its
  confidence is exactly 0.5 and it carries a single insight. The fallback is a total
  function of its input: none of its steps can raise.
\<close>

theorem predict_waiting_time_fallback:
  assumes "predict_try historical_data patient_data current_queue now = Inl e"
  shows "let r = predict_waiting_time historical_data patient_data current_queue now;
             n = int (length (filter not_called current_queue));
             severity = (case pd_severity_level patient_data of
                           None \<Rightarrow> StrV ''Medium'' | Some v \<Rightarrow> v)
         in r = fallback_prediction patient_data current_queue now
            \<and> pr_predicted_wait_time r =
                (if severity = StrV ''Critical'' then 5
                 else if severity = StrV ''Urgent'' then 10 + 2 * n
                 else if severity = StrV ''Medium'' then 20 + 3 * n
                 else 30 + 4 * n)
            \<and> pr_confidence_score r = 1 / 2
            \<and> pr_insights r = [''Using fallback prediction - AI temporarily unavailable'']
            \<and> length (pr_insights r) = 1"
proof -
  have r: "predict_waiting_time historical_data patient_data current_queue now
             = fallback_prediction patient_data current_queue now"
    using assms by (simp add: predict_waiting_time_def)
  show ?thesis
    unfolding r Let_def by (simp add: fallback_prediction_def Let_def)
qed

theorem predict_waiting_time_fallback_witness:
  "predict_try []
     \<lparr>pd_severity_level = Some (StrV ''Urgent''), pd_symptoms = Some (ListV [StrV ''fever'']),
      pd_age = Some (StrV ''forty'')\<rparr>
     [\<lparr>qe_called = Some (BoolV False), qe_severity_level = Some (StrV ''Critical'')\<rparr>,
      \<lparr>qe_called = Some (BoolV True), qe_severity_level = Some (StrV ''Stable'')\<rparr>]
     \<lparr>dt_instant = 0, dt_hour = 10, dt_day_name = ''Monday''\<rparr> = Inl TypeError
   \<and> pr_predicted_wait_time (predict_waiting_time []
     \<lparr>pd_severity_level = Some (StrV ''Urgent''), pd_symptoms = Some (ListV [StrV ''fever'']),
      pd_age = Some (StrV ''forty'')\<rparr>
     [\<lparr>qe_called = Some (BoolV False), qe_severity_level = Some (StrV ''Critical'')\<rparr>,
      \<lparr>qe_called = Some (BoolV True), qe_severity_level = Some (StrV ''Stable'')\<rparr>]
     \<lparr>dt_instant = 0, dt_hour = 10, dt_day_name = ''Monday''\<rparr>) = 12
   \<and> pr_confidence_score (predict_waiting_time []
     \<lparr>pd_severity_level = Some (StrV ''Urgent''), pd_symptoms = Some (ListV [StrV ''fever'']),
      pd_age = Some (StrV ''forty'')\<rparr>
     [\<lparr>qe_called = Some (BoolV False), qe_severity_level = Some (StrV ''Critical'')\<rparr>,
      \<lparr>qe_called = Some (BoolV True), qe_severity_level = Some (StrV ''Stable'')\<rparr>]
     \<lparr>dt_instant = 0, dt_hour = 10, dt_day_name = ''Monday''\<rparr>) = 1 / 2"
proof -
  let ?pd = "\<lparr>pd_severity_level = Some (StrV ''Urgent''), pd_symptoms = Some (ListV [StrV ''fever'']),
      pd_age = Some (StrV ''forty'')\<rparr>"
  let ?q = "[\<lparr>qe_called = Some (BoolV False), qe_severity_level = Some (StrV ''Critical'')\<rparr>,
      \<lparr>qe_called = Some (BoolV True), qe_severity_level = Some (StrV ''Stable'')\<rparr>]"
  let ?now = "\<lparr>dt_instant = 0, dt_hour = 10, dt_day_name = ''Monday''\<rparr>"
  have raises: "predict_try [] ?pd ?q ?now = Inl TypeError"
    by code_simp
  have n: "int (length (filter not_called ?q)) = 1"
    by (simp add: not_called_def)
  note fb = predict_waiting_time_fallback [OF raises, unfolded Let_def n]
  have wait: "pr_predicted_wait_time (predict_waiting_time [] ?pd ?q ?now) = 12"
    using fb [THEN conjunct2, THEN conjunct1] by simp
  have conf: "pr_confidence_score (predict_waiting_time [] ?pd ?q ?now) = 1 / 2"
    using fb [THEN conjunct2, THEN conjunct2, THEN conjunct1] by simp
  from raises wait conf show ?thesis by blast
qed

lemma predict_try_well_typed:
  assumes "pd_severity_level pd = Some (StrV s)" "pd_age pd = Some (IntV a)"
  shows "\<exists>r. predict_try h pd q now = Inr r"
proof -
  have "\<not> (\<exists>e. predict_try h pd q now = Inl e)"
    unfolding predict_try_raises using assms by (simp add: extract_features_def Let_def)
  then show ?thesis by (cases "predict_try h pd q now") auto
qed

subsection \<open>Adaptive adjustment\<close>

lemma calculate_recent_accuracy_mean:
  "length h > 10 \<Longrightarrow>
     calculate_recent_accuracy h = sum_list (map fb_accuracy (last_n 10 h)) / 10"
  by (simp add: calculate_recent_accuracy_def Let_def last_n_def)

lemma historical_adjustment_small: "length h \<le> 10 \<Longrightarrow> historical_adjustment h b = b"
  by (simp add: historical_adjustment_def)

lemma historical_adjustment_large:
  "length h > 10 \<Longrightarrow>
     historical_adjustment h b =
       (if sum_list (map fb_accuracy (last_n 10 h)) / 10 < 7 / 10
        then b * (1 + (7 / 10 - sum_list (map fb_accuracy (last_n 10 h)) / 10) * (2 / 10))
        else b)"
  by (simp add: historical_adjustment_def calculate_recent_accuracy_mean Let_def)

lemma apply_ai_adjustments_history:
  "apply_ai_adjustments h b fs = apply_ai_adjustments [] (historical_adjustment h b) fs"
  by (simp add: apply_ai_adjustments_def Let_def historical_adjustment_def)

text \<open>
  Claim C7. The adaptive adjustment leaves the base time unchanged when the feedback
  store holds at most 10 records. With more than 10 records it takes the mean accuracy of
  the last 10 records; only when that mean is below 0.7 is the base time multiplied by
  \<open>1 + (0.7 - mean) * 0.2\<close>, which is linear in the shortfall with the fixed gain 0.2 and
  enlarges a positive base time; otherwise the base time is unchanged. Two histories of
  more than 10 records with the same last 10 records give the same result, whatever
  their older records are. The history enters \<open>_apply_ai_adjustments\<close> through this step
  only.
\<close>

theorem historical_adjustment_recent_ten:
  "(length h \<le> 10 \<longrightarrow> historical_adjustment h b = b)
   \<and> (length h > 10 \<longrightarrow>
        historical_adjustment h b =
          (if sum_list (map fb_accuracy (last_n 10 h)) / 10 < 7 / 10
           then b * (1 + (7 / 10 - sum_list (map fb_accuracy (last_n 10 h)) / 10) * (2 / 10))
           else b))
   \<and> (length h > 10 \<and> length h' > 10 \<and> last_n 10 h = last_n 10 h' \<longrightarrow>
        historical_adjustment h b = historical_adjustment h' b)
   \<and> (length h > 10 \<and> sum_list (map fb_accuracy (last_n 10 h)) / 10 < 7 / 10 \<and> 0 < b \<longrightarrow>
        b < historical_adjustment h b)
   \<and> apply_ai_adjustments h b fs = apply_ai_adjustments [] (historical_adjustment h b) fs"
proof (intro conjI impI)
  show "historical_adjustment h b = b" if "length h \<le> 10"
    using that by (rule historical_adjustment_small)
  show "historical_adjustment h b =
          (if sum_list (map fb_accuracy (last_n 10 h)) / 10 < 7 / 10
           then b * (1 + (7 / 10 - sum_list (map fb_accuracy (last_n 10 h)) / 10) * (2 / 10))
           else b)" if "length h > 10"
    using that by (rule historical_adjustment_large)
  show "historical_adjustment h b = historical_adjustment h' b"
    if "length h > 10 \<and> length h' > 10 \<and> last_n 10 h = last_n 10 h'"
    using that by (simp add: historical_adjustment_large)
  show "b < historical_adjustment h b"
    if "length h > 10 \<and> sum_list (map fb_accuracy (last_n 10 h)) / 10 < 7 / 10 \<and> 0 < b"
  proof -
    let ?m = "sum_list (map fb_accuracy (last_n 10 h)) / 10"
    have "0 < (7 / 10 - ?m) * (2 / 10)" using that by simp
    then have "b * 1 < b * (1 + (7 / 10 - ?m) * (2 / 10))"
      using that by (intro mult_strict_left_mono) auto
    then show ?thesis using that by (simp add: historical_adjustment_large)
  qed
  show "apply_ai_adjustments h b fs = apply_ai_adjustments [] (historical_adjustment h b) fs"
    by (rule apply_ai_adjustments_history)
qed

theorem historical_adjustment_recent_ten_witness:
  "length
     (\<lparr>fb_actual_wait_time = 20, fb_predicted_wait_time = 20,
        fb_features =
          \<lparr>f_queue_length = 2, f_high_priority_in_queue = 1, f_severity_level = StrV ''Urgent'',
            f_symptom_complexity = ''simple'', f_symptom_count = 1, f_age = IntV 40,
            f_time_of_day = ''morning'', f_day_of_week = ''Monday'', f_hour = 10\<rparr>,
        fb_timestamp = 0, fb_accuracy = 1\<rparr>
      # replicate 10
       \<lparr>fb_actual_wait_time = 10, fb_predicted_wait_time = 20,
        fb_features =
          \<lparr>f_queue_length = 2, f_high_priority_in_queue = 1, f_severity_level = StrV ''Urgent'',
            f_symptom_complexity = ''simple'', f_symptom_count = 1, f_age = IntV 40,
            f_time_of_day = ''morning'', f_day_of_week = ''Monday'', f_hour = 10\<rparr>,
        fb_timestamp = 0, fb_accuracy = 1 / 2\<rparr>) > 10
   \<and> historical_adjustment
     (\<lparr>fb_actual_wait_time = 20, fb_predicted_wait_time = 20,
        fb_features =
          \<lparr>f_queue_length = 2, f_high_priority_in_queue = 1, f_severity_level = StrV ''Urgent'',
            f_symptom_complexity = ''simple'', f_symptom_count = 1, f_age = IntV 40,
            f_time_of_day = ''morning'', f_day_of_week = ''Monday'', f_hour = 10\<rparr>,
        fb_timestamp = 0, fb_accuracy = 1\<rparr>
      # replicate 10
       \<lparr>fb_actual_wait_time = 10, fb_predicted_wait_time = 20,
        fb_features =
          \<lparr>f_queue_length = 2, f_high_priority_in_queue = 1, f_severity_level = StrV ''Urgent'',
            f_symptom_complexity = ''simple'', f_symptom_count = 1, f_age = IntV 40,
            f_time_of_day = ''morning'', f_day_of_week = ''Monday'', f_hour = 10\<rparr>,
        fb_timestamp = 0, fb_accuracy = 1 / 2\<rparr>) 100 = 104
   \<and> historical_adjustment
     (\<lparr>fb_actual_wait_time = 20, fb_predicted_wait_time = 20,
        fb_features =
          \<lparr>f_queue_length = 2, f_high_priority_in_queue = 1, f_severity_level = StrV ''Urgent'',
            f_symptom_complexity = ''simple'', f_symptom_count = 1, f_age = IntV 40,
            f_time_of_day = ''morning'', f_day_of_week = ''Monday'', f_hour = 10\<rparr>,
        fb_timestamp = 0, fb_accuracy = 1\<rparr>
      # \<lparr>fb_actual_wait_time = 20, fb_predicted_wait_time = 20,
        fb_features =
          \<lparr>f_queue_length = 2, f_high_priority_in_queue = 1, f_severity_level = StrV ''Urgent'',
            f_symptom_complexity = ''simple'', f_symptom_count = 1, f_age = IntV 40,
            f_time_of_day = ''morning'', f_day_of_week = ''Monday'', f_hour = 10\<rparr>,
        fb_timestamp = 0, fb_accuracy = 1\<rparr>
      # replicate 10
       \<lparr>fb_actual_wait_time = 10, fb_predicted_wait_time = 20,
        fb_features =
          \<lparr>f_queue_length = 2, f_high_priority_in_queue = 1, f_severity_level = StrV ''Urgent'',
            f_symptom_complexity = ''simple'', f_symptom_count = 1, f_age = IntV 40,
            f_time_of_day = ''morning'', f_day_of_week = ''Monday'', f_hour = 10\<rparr>,
        fb_timestamp = 0, fb_accuracy = 1 / 2\<rparr>) 100 = 104"
proof -
  let ?old = "\<lparr>fb_actual_wait_time = 20, fb_predicted_wait_time = 20,
        fb_features =
          \<lparr>f_queue_length = 2, f_high_priority_in_queue = 1, f_severity_level = StrV ''Urgent'',
            f_symptom_complexity = ''simple'', f_symptom_count = 1, f_age = IntV 40,
            f_time_of_day = ''morning'', f_day_of_week = ''Monday'', f_hour = 10\<rparr>,
        fb_timestamp = 0, fb_accuracy = 1\<rparr>"
  let ?r = "\<lparr>fb_actual_wait_time = 10, fb_predicted_wait_time = 20,
        fb_features =
          \<lparr>f_queue_length = 2, f_high_priority_in_queue = 1, f_severity_level = StrV ''Urgent'',
            f_symptom_complexity = ''simple'', f_symptom_count = 1, f_age = IntV 40,
            f_time_of_day = ''morning'', f_day_of_week = ''Monday'', f_hour = 10\<rparr>,
        fb_timestamp = 0, fb_accuracy = 1 / 2\<rparr>"
  let ?h = "?old # replicate 10 ?r"
  let ?h' = "?old # ?old # replicate 10 ?r"
  have len: "length ?h > 10" "length ?h' > 10" by simp_all
  have recent: "last_n 10 ?h = last_n 10 ?h'" by (simp add: last_n_def)
  have mean: "sum_list (map fb_accuracy (last_n 10 ?h)) / 10 = 1 / 2"
    by (simp add: last_n_def sum_list_replicate)
  note t = historical_adjustment_recent_ten [of ?h 100 ?h']
  have val: "historical_adjustment ?h 100 = 104"
    using t [THEN conjunct2, THEN conjunct1] len(1) mean by simp
  have same: "historical_adjustment ?h 100 = historical_adjustment ?h' 100"
    using t [THEN conjunct2, THEN conjunct2, THEN conjunct1] len recent by blast
  from len(1) val same show ?thesis by simp
qed

subsection \<open>Severity multiplier\<close>

lemma dict_get_severity_default:
  assumes "hashable sev"
    and "sev \<notin> {StrV ''Critical'', StrV ''Urgent'', StrV ''Medium'', StrV ''Low''}"
  shows "dict_get severity_multiplier sev d = Inr d"
  using assms by (cases sev) (auto simp: dict_get_def severity_multiplier_def)

lemma dict_get_severity_Medium: "dict_get severity_multiplier (StrV ''Medium'') d = Inr (6 / 10)"
  by (simp add: dict_get_def severity_multiplier_def)

text \<open>
  Claim C9. A severity level that is not one of the keys Critical, Urgent, Medium and Low
  of the multiplier table gets the default multiplier 0.6, which is also the multiplier
  of Medium, so the base time is the same as for Medium with the other features equal.
  This holds in particular for the level Stable, which \<open>get_severity_level\<close> returns for
  every score below 4.
\<close>

theorem stable_gets_medium_multiplier:
  assumes "hashable sev"
    and "sev \<notin> {StrV ''Critical'', StrV ''Urgent'', StrV ''Medium'', StrV ''Low''}"
  shows "dict_get severity_multiplier sev (6 / 10) = Inr (6 / 10)
         \<and> dict_get severity_multiplier (StrV ''Medium'') (6 / 10) = Inr (6 / 10)
         \<and> calculate_base_waiting_time (fs\<lparr>f_severity_level := sev\<rparr>)
             = calculate_base_waiting_time (fs\<lparr>f_severity_level := StrV ''Medium''\<rparr>)
         \<and> (score < 4 \<longrightarrow>
               get_severity_level score = ''Stable''
               \<and> calculate_base_waiting_time (fs\<lparr>f_severity_level := StrV (get_severity_level score)\<rparr>)
                   = calculate_base_waiting_time (fs\<lparr>f_severity_level := StrV ''Medium''\<rparr>))"
proof -
  have stable: "dict_get severity_multiplier (StrV ''Stable'') d = Inr d" for d :: rat
    by (simp add: dict_get_def severity_multiplier_def)
  have same: "calculate_base_waiting_time (fs\<lparr>f_severity_level := sev\<rparr>)
                = calculate_base_waiting_time (fs\<lparr>f_severity_level := StrV ''Medium''\<rparr>)"
    by (simp add: calculate_base_waiting_time_def dict_get_severity_default [OF assms]
          dict_get_severity_Medium cong: sum.case_cong)
  have same_stable: "calculate_base_waiting_time (fs\<lparr>f_severity_level := StrV ''Stable''\<rparr>)
                = calculate_base_waiting_time (fs\<lparr>f_severity_level := StrV ''Medium''\<rparr>)"
    by (simp add: calculate_base_waiting_time_def stable dict_get_severity_Medium
          cong: sum.case_cong)
  have level: "get_severity_level score = ''Stable''" if "score < 4"
    using that by (simp add: get_severity_level_def)
  show ?thesis
    using same same_stable level dict_get_severity_default [OF assms, of "6 / 10"]
      dict_get_severity_Medium [of "6 / 10"]
    by simp
qed


theorem stable_gets_medium_multiplier_witness:
  "hashable (StrV ''Stable'')
   \<and> StrV ''Stable'' \<notin> {StrV ''Critical'', StrV ''Urgent'', StrV ''Medium'', StrV ''Low''}
   \<and> (2 :: int) < 4
   \<and> get_severity_level 2 = ''Stable''
   \<and> calculate_base_waiting_time
       \<lparr>f_queue_length = 2, f_high_priority_in_queue = 1, f_severity_level = StrV ''Stable'',
        f_symptom_complexity = ''simple'', f_symptom_count = 1, f_age = IntV 40,
        f_time_of_day = ''morning'', f_day_of_week = ''Monday'', f_hour = 10\<rparr>
     = calculate_base_waiting_time
       \<lparr>f_queue_length = 2, f_high_priority_in_queue = 1, f_severity_level = StrV ''Medium'',
        f_symptom_complexity = ''simple'', f_symptom_count = 1, f_age = IntV 40,
        f_time_of_day = ''morning'', f_day_of_week = ''Monday'', f_hour = 10\<rparr>
   \<and> calculate_base_waiting_time
       \<lparr>f_queue_length = 2, f_high_priority_in_queue = 1, f_severity_level = StrV ''Medium'',
        f_symptom_complexity = ''simple'', f_symptom_count = 1, f_age = IntV 40,
        f_time_of_day = ''morning'', f_day_of_week = ''Monday'', f_hour = 10\<rparr> = Inr (18252 / 625)"
proof -
  have h: "hashable (StrV ''Stable'')" by simp
  have n: "StrV ''Stable'' \<notin> {StrV ''Critical'', StrV ''Urgent'', StrV ''Medium'', StrV ''Low''}"
    by simp
  have s: "(2 :: int) < 4" by simp
  have v: "calculate_base_waiting_time
       \<lparr>f_queue_length = 2, f_high_priority_in_queue = 1, f_severity_level = StrV ''Medium'',
        f_symptom_complexity = ''simple'', f_symptom_count = 1, f_age = IntV 40,
        f_time_of_day = ''morning'', f_day_of_week = ''Monday'', f_hour = 10\<rparr> = Inr (18252 / 625)"
    by code_simp
  note t = stable_gets_medium_multiplier [OF h n, of
       "\<lparr>f_queue_length = 2, f_high_priority_in_queue = 1, f_severity_level = StrV ''Stable'',
        f_symptom_complexity = ''simple'', f_symptom_count = 1, f_age = IntV 40,
        f_time_of_day = ''morning'', f_day_of_week = ''Monday'', f_hour = 10\<rparr>" 2]
  have lvl: "get_severity_level 2 = ''Stable''"
    using t [THEN conjunct2, THEN conjunct2, THEN conjunct2] s by blast
  have eq: "calculate_base_waiting_time
       \<lparr>f_queue_length = 2, f_high_priority_in_queue = 1, f_severity_level = StrV ''Stable'',
        f_symptom_complexity = ''simple'', f_symptom_count = 1, f_age = IntV 40,
        f_time_of_day = ''morning'', f_day_of_week = ''Monday'', f_hour = 10\<rparr>
     = calculate_base_waiting_time
       \<lparr>f_queue_length = 2, f_high_priority_in_queue = 1, f_severity_level = StrV ''Medium'',
        f_symptom_complexity = ''simple'', f_symptom_count = 1, f_age = IntV 40,
        f_time_of_day = ''morning'', f_day_of_week = ''Monday'', f_hour = 10\<rparr>"
    using t [THEN conjunct2, THEN conjunct2, THEN conjunct1] by simp
  from h n s lvl eq v show ?thesis by blast
qed

section \<open>Properties of the queue order\<close>

lemma priority_before_key: "priority_before p q = (priority_key p < priority_key q)"
  by (auto simp: priority_before_def priority_key_def less_prod_def)

lemma not_priority_before_key: "(\<not> priority_before q p) = (priority_key p \<le> priority_key q)"
  by (simp add: priority_before_key not_less)

lemma sorted_order_by_priority:
  "sorted_wrt (\<lambda>a b. \<not> priority_before b a) (order_by_priority rows)"
proof -
  have "sorted (map priority_key (sort_key priority_key rows))"
    by (rule sorted_sort_key)
  then show ?thesis
    by (simp add: order_by_priority_def sorted_wrt_map not_priority_before_key)
qed

lemma order_by_priority_idem:
  "order_by_priority (order_by_priority rows) = order_by_priority rows"
  unfolding order_by_priority_def
  by (rule sort_key_id_if_sorted) (rule sorted_sort_key)

lemma mset_order_by_priority: "mset (order_by_priority rows) = mset rows"
  by (simp add: order_by_priority_def)

text \<open>
  Claim C5. The queue order is decided by the triage score, descending, and then by the
  arrival time \<open>queued_at\<close>, ascending. The relation "comes before" is a strict weak
  ordering: it is irreflexive and transitive, and being tied is transitive. Two rows are
  tied exactly when they agree on both columns, and among rows of equal score only the
  arrival time decides. The ordered list is sorted by this relation, holds the same rows,
  and ordering it again returns the identical list.
\<close>

theorem priority_order_strict_weak:
  "\<not> priority_before p p
   \<and> (priority_before p q \<and> priority_before q r \<longrightarrow> priority_before p r)
   \<and> (\<not> priority_before p q \<and> \<not> priority_before q p
        \<and> \<not> priority_before q r \<and> \<not> priority_before r q
        \<longrightarrow> \<not> priority_before p r \<and> \<not> priority_before r p)
   \<and> ((\<not> priority_before p q \<and> \<not> priority_before q p)
        = (p_triage_score p = p_triage_score q \<and> p_queued_at p = p_queued_at q))
   \<and> (p_triage_score p = p_triage_score q
        \<longrightarrow> priority_before p q = (p_queued_at p < p_queued_at q))
   \<and> sorted_wrt (\<lambda>a b. \<not> priority_before b a) (order_by_priority rows)
   \<and> mset (order_by_priority rows) = mset rows
   \<and> order_by_priority (order_by_priority rows) = order_by_priority rows
   \<and> get_patients (get_patients rows) = get_patients rows"
proof (intro conjI impI)
  show "\<not> priority_before p p"
    by (simp add: priority_before_def)
  show "priority_before p r" if "priority_before p q \<and> priority_before q r"
    using that by (auto simp: priority_before_def)
  show "\<not> priority_before p r" "\<not> priority_before r p"
    if "\<not> priority_before p q \<and> \<not> priority_before q p
        \<and> \<not> priority_before q r \<and> \<not> priority_before r q"
    using that by (auto simp: priority_before_def)
  show "(\<not> priority_before p q \<and> \<not> priority_before q p)
        = (p_triage_score p = p_triage_score q \<and> p_queued_at p = p_queued_at q)"
    by (auto simp: priority_before_def)
  show "priority_before p q = (p_queued_at p < p_queued_at q)"
    if "p_triage_score p = p_triage_score q"
    using that by (simp add: priority_before_def)
  show "sorted_wrt (\<lambda>a b. \<not> priority_before b a) (order_by_priority rows)"
    by (rule sorted_order_by_priority)
  show "mset (order_by_priority rows) = mset rows"
    by (rule mset_order_by_priority)
  show "order_by_priority (order_by_priority rows) = order_by_priority rows"
    by (rule order_by_priority_idem)
  show "get_patients (get_patients rows) = get_patients rows"
    unfolding get_patients_def by (rule order_by_priority_idem)
qed

theorem priority_order_strict_weak_witness:
  "priority_before
     \<lparr>p_id = 2, p_user_id = 12, p_name = ''Bob'', p_age = 40, p_symptoms = [''fever''],
      p_triage_score = 9, p_severity_level = ''Critical'', p_eta = 3, p_queued_at = 200,
      p_called = False, p_lang_code = ''en''\<rparr>
     \<lparr>p_id = 1, p_user_id = 11, p_name = ''Ann'', p_age = 40, p_symptoms = [''fever''],
      p_triage_score = 4, p_severity_level = ''Urgent'', p_eta = 12, p_queued_at = 100,
      p_called = False, p_lang_code = ''en''\<rparr>
   \<and> priority_before
     \<lparr>p_id = 1, p_user_id = 11, p_name = ''Ann'', p_age = 40, p_symptoms = [''fever''],
      p_triage_score = 4, p_severity_level = ''Urgent'', p_eta = 12, p_queued_at = 100,
      p_called = False, p_lang_code = ''en''\<rparr>
     \<lparr>p_id = 3, p_user_id = 13, p_name = ''Cy'', p_age = 40, p_symptoms = [''fever''],
      p_triage_score = 4, p_severity_level = ''Urgent'', p_eta = 14, p_queued_at = 300,
      p_called = False, p_lang_code = ''en''\<rparr>
   \<and> priority_before
     \<lparr>p_id = 2, p_user_id = 12, p_name = ''Bob'', p_age = 40, p_symptoms = [''fever''],
      p_triage_score = 9, p_severity_level = ''Critical'', p_eta = 3, p_queued_at = 200,
      p_called = False, p_lang_code = ''en''\<rparr>
     \<lparr>p_id = 3, p_user_id = 13, p_name = ''Cy'', p_age = 40, p_symptoms = [''fever''],
      p_triage_score = 4, p_severity_level = ''Urgent'', p_eta = 14, p_queued_at = 300,
      p_called = False, p_lang_code = ''en''\<rparr>
   \<and> order_by_priority
     [\<lparr>p_id = 3, p_user_id = 13, p_name = ''Cy'', p_age = 40, p_symptoms = [''fever''],
      p_triage_score = 4, p_severity_level = ''Urgent'', p_eta = 14, p_queued_at = 300,
      p_called = False, p_lang_code = ''en''\<rparr>,
      \<lparr>p_id = 1, p_user_id = 11, p_name = ''Ann'', p_age = 40, p_symptoms = [''fever''],
      p_triage_score = 4, p_severity_level = ''Urgent'', p_eta = 12, p_queued_at = 100,
      p_called = False, p_lang_code = ''en''\<rparr>,
      \<lparr>p_id = 2, p_user_id = 12, p_name = ''Bob'', p_age = 40, p_symptoms = [''fever''],
      p_triage_score = 9, p_severity_level = ''Critical'', p_eta = 3, p_queued_at = 200,
      p_called = False, p_lang_code = ''en''\<rparr>]
     = [\<lparr>p_id = 2, p_user_id = 12, p_name = ''Bob'', p_age = 40, p_symptoms = [''fever''],
      p_triage_score = 9, p_severity_level = ''Critical'', p_eta = 3, p_queued_at = 200,
      p_called = False, p_lang_code = ''en''\<rparr>,
      \<lparr>p_id = 1, p_user_id = 11, p_name = ''Ann'', p_age = 40, p_symptoms = [''fever''],
      p_triage_score = 4, p_severity_level = ''Urgent'', p_eta = 12, p_queued_at = 100,
      p_called = False, p_lang_code = ''en''\<rparr>,
      \<lparr>p_id = 3, p_user_id = 13, p_name = ''Cy'', p_age = 40, p_symptoms = [''fever''],
      p_triage_score = 4, p_severity_level = ''Urgent'', p_eta = 14, p_queued_at = 300,
      p_called = False, p_lang_code = ''en''\<rparr>]
   \<and> order_by_priority
     [\<lparr>p_id = 2, p_user_id = 12, p_name = ''Bob'', p_age = 40, p_symptoms = [''fever''],
      p_triage_score = 9, p_severity_level = ''Critical'', p_eta = 3, p_queued_at = 200,
      p_called = False, p_lang_code = ''en''\<rparr>,
      \<lparr>p_id = 1, p_user_id = 11, p_name = ''Ann'', p_age = 40, p_symptoms = [''fever''],
      p_triage_score = 4, p_severity_level = ''Urgent'', p_eta = 12, p_queued_at = 100,
      p_called = False, p_lang_code = ''en''\<rparr>,
      \<lparr>p_id = 3, p_user_id = 13, p_name = ''Cy'', p_age = 40, p_symptoms = [''fever''],
      p_triage_score = 4, p_severity_level = ''Urgent'', p_eta = 14, p_queued_at = 300,
      p_called = False, p_lang_code = ''en''\<rparr>]
     = [\<lparr>p_id = 2, p_user_id = 12, p_name = ''Bob'', p_age = 40, p_symptoms = [''fever''],
      p_triage_score = 9, p_severity_level = ''Critical'', p_eta = 3, p_queued_at = 200,
      p_called = False, p_lang_code = ''en''\<rparr>,
      \<lparr>p_id = 1, p_user_id = 11, p_name = ''Ann'', p_age = 40, p_symptoms = [''fever''],
      p_triage_score = 4, p_severity_level = ''Urgent'', p_eta = 12, p_queued_at = 100,
      p_called = False, p_lang_code = ''en''\<rparr>,
      \<lparr>p_id = 3, p_user_id = 13, p_name = ''Cy'', p_age = 40, p_symptoms = [''fever''],
      p_triage_score = 4, p_severity_level = ''Urgent'', p_eta = 14, p_queued_at = 300,
      p_called = False, p_lang_code = ''en''\<rparr>]"
proof -
  let ?a = "\<lparr>p_id = 1, p_user_id = 11, p_name = ''Ann'', p_age = 40, p_symptoms = [''fever''],
      p_triage_score = 4, p_severity_level = ''Urgent'', p_eta = 12, p_queued_at = 100,
      p_called = False, p_lang_code = ''en''\<rparr>"
  let ?b = "\<lparr>p_id = 2, p_user_id = 12, p_name = ''Bob'', p_age = 40, p_symptoms = [''fever''],
      p_triage_score = 9, p_severity_level = ''Critical'', p_eta = 3, p_queued_at = 200,
      p_called = False, p_lang_code = ''en''\<rparr>"
  let ?c = "\<lparr>p_id = 3, p_user_id = 13, p_name = ''Cy'', p_age = 40, p_symptoms = [''fever''],
      p_triage_score = 4, p_severity_level = ''Urgent'', p_eta = 14, p_queued_at = 300,
      p_called = False, p_lang_code = ''en''\<rparr>"
  have ba: "priority_before ?b ?a" by (simp add: priority_before_def)
  have ac: "priority_before ?a ?c" by (simp add: priority_before_def)
  have sorted: "order_by_priority [?c, ?a, ?b] = [?b, ?a, ?c]"
    by (simp add: order_by_priority_def priority_key_def)
  note t = priority_order_strict_weak [of ?b ?a ?c "[?c, ?a, ?b]"]
  have bc: "priority_before ?b ?c"
    using t [THEN conjunct2, THEN conjunct1] ba ac by blast
  have idem: "order_by_priority (order_by_priority [?c, ?a, ?b]) = order_by_priority [?c, ?a, ?b]"
    using t by blast
  from ba ac bc sorted idem show ?thesis by simp
qed

section \<open>Properties of the notification scheduler\<close>

lemma clear_loop:
  "fold (\<lambda>job js. if startswith_notify (j_id job) then remove_job (j_id job) js else js) xs js
     = filter (\<lambda>j. \<not> (startswith_notify (j_id j) \<and> j_id j \<in> j_id ` set xs)) js"
proof (induction xs arbitrary: js)
  case Nil
  then show ?case by simp
next
  case (Cons x xs)
  show ?case
    by (auto simp: Cons.IH remove_job_def intro!: filter_cong)
qed

lemma clear_notify_jobs:
  "fold (\<lambda>job js. if startswith_notify (j_id job) then remove_job (j_id job) js else js) jobs jobs
     = filter (\<lambda>j. \<not> startswith_notify (j_id j)) jobs"
  unfolding clear_loop by (rule filter_cong) auto

lemma reschedule_unfold:
  "reschedule_queue_notifications clock db jobs =
     schedule_loop clock 0
       (take NOTIFICATION_WINDOW (order_by_priority (filter (\<lambda>p. p_called p = False) db)))
       (filter (\<lambda>j. \<not> startswith_notify (j_id j)) jobs)"
  by (simp add: reschedule_queue_notifications_def clear_notify_jobs Let_def)

lemma other_jobs_add_job:
  "startswith_notify (j_id j) \<Longrightarrow>
     filter (\<lambda>j. \<not> startswith_notify (j_id j)) (add_job j jobs)
       = filter (\<lambda>j. \<not> startswith_notify (j_id j)) jobs"
  by (auto simp: add_job_def intro!: filter_cong)

lemma other_jobs_schedule_loop:
  "filter (\<lambda>j. \<not> startswith_notify (j_id j)) (schedule_loop clock k ps jobs)
     = filter (\<lambda>j. \<not> startswith_notify (j_id j)) jobs"
  by (induction ps arbitrary: k jobs) (simp_all add: Let_def other_jobs_add_job)

lemma ids_add_job:
  "map j_id (add_job j jobs) = filter (\<lambda>i. i \<noteq> j_id j) (map j_id jobs) @ [j_id j]"
  by (simp add: add_job_def filter_map comp_def)

lemma ids_schedule_loop_clock:
  "map j_id jobs = map j_id jobs' \<Longrightarrow>
     map j_id (schedule_loop clock k ps jobs) = map j_id (schedule_loop clock' k' ps jobs')"
proof (induction ps arbitrary: k k' jobs jobs')
  case Nil
  then show ?case by simp
next
  case (Cons p ps)
  show ?case
    unfolding schedule_loop.simps Let_def
    by (rule Cons.IH) (simp add: ids_add_job Cons.prems)
qed

lemma set_ids_schedule_loop:
  "j_id ` set (schedule_loop clock k ps jobs) = j_id ` set jobs \<union> Notify ` p_id ` set ps"
proof (induction ps arbitrary: k jobs)
  case Nil
  then show ?case by simp
next
  case (Cons p ps)
  have "j_id ` set (add_job j jobs) = insert (j_id j) (j_id ` set jobs)" for j
    by (auto simp: add_job_def)
  then show ?case
    unfolding schedule_loop.simps Let_def Cons.IH by auto
qed

lemma distinct_notify_add_job:
  assumes "distinct (map j_id (filter (\<lambda>j. startswith_notify (j_id j)) jobs))"
  shows "distinct (map j_id (filter (\<lambda>j. startswith_notify (j_id j)) (add_job j jobs)))"
proof -
  have "distinct (map j_id (filter (\<lambda>k. j_id k \<noteq> j_id j) (filter (\<lambda>j. startswith_notify (j_id j)) jobs)))"
    using assms by (rule distinct_map_filter)
  then show ?thesis
    by (auto simp: add_job_def conj_commute)
qed

lemma distinct_notify_schedule_loop:
  "distinct (map j_id (filter (\<lambda>j. startswith_notify (j_id j)) jobs)) \<Longrightarrow>
     distinct (map j_id (filter (\<lambda>j. startswith_notify (j_id j)) (schedule_loop clock k ps jobs)))"
proof (induction ps arbitrary: k jobs)
  case Nil
  then show ?case by simp
next
  case (Cons p ps)
  show ?case
    unfolding schedule_loop.simps Let_def
    by (rule Cons.IH) (rule distinct_notify_add_job [OF Cons.prems])
qed

lemma distinct_notify_reschedule:
  "distinct (map j_id (filter (\<lambda>j. startswith_notify (j_id j))
      (reschedule_queue_notifications clock db jobs)))"
  unfolding reschedule_unfold
  by (rule distinct_notify_schedule_loop) simp

lemma notify_ids_reschedule:
  "{i. Notify i \<in> j_id ` set (reschedule_queue_notifications clock db jobs)}
     = p_id ` set (take NOTIFICATION_WINDOW
                     (order_by_priority (filter (\<lambda>p. p_called p = False) db)))"
proof -
  have "Notify i \<notin> j_id ` set (filter (\<lambda>j. \<not> startswith_notify (j_id j)) jobs)" for i
    by (auto dest: sym)
  then show ?thesis
    unfolding reschedule_unfold set_ids_schedule_loop by auto
qed

lemma reschedule_twice:
  "reschedule_queue_notifications clock2 db (reschedule_queue_notifications clock1 db jobs)
     = reschedule_queue_notifications clock2 db jobs"
  by (simp add: reschedule_unfold other_jobs_schedule_loop)

lemma ids_reschedule_clock:
  "map j_id (reschedule_queue_notifications clock2 db jobs)
     = map j_id (reschedule_queue_notifications clock1 db jobs)"
  unfolding reschedule_unfold by (rule ids_schedule_loop_clock) simp

lemma add_job_append:
  assumes "\<forall>k \<in> set a. \<not> startswith_notify (j_id k)" "startswith_notify (j_id j)"
  shows "add_job j (a @ b) = a @ add_job j b"
proof -
  have "filter (\<lambda>k. j_id k \<noteq> j_id j) a = a"
    using assms by (intro filter_True) auto
  then show ?thesis by (simp add: add_job_def)
qed

lemma schedule_loop_append:
  assumes "\<forall>k \<in> set a. \<not> startswith_notify (j_id k)"
  shows "schedule_loop clock k ps (a @ b) = a @ schedule_loop clock k ps b"
proof (induction ps arbitrary: k b)
  case Nil
  then show ?case by simp
next
  case (Cons p ps)
  show ?case
    by (simp add: Let_def add_job_append [OF assms] Cons.IH)
qed

lemma reschedule_split:
  "reschedule_queue_notifications clock db jobs =
     filter (\<lambda>j. \<not> startswith_notify (j_id j)) jobs
     @ schedule_loop clock 0
         (take NOTIFICATION_WINDOW (order_by_priority (filter (\<lambda>p. p_called p = False) db))) []"
  unfolding reschedule_unfold
  using schedule_loop_append [of "filter (\<lambda>j. \<not> startswith_notify (j_id j)) jobs" _ _ _ "[]"]
  by simp

lemma notify_schedule_loop_Nil:
  "filter (\<lambda>j. startswith_notify (j_id j)) (schedule_loop clock k ps []) = schedule_loop clock k ps []"
proof -
  have "filter (\<lambda>j. \<not> startswith_notify (j_id j)) (schedule_loop clock k ps []) = []"
    by (simp add: other_jobs_schedule_loop)
  then have "\<forall>j \<in> set (schedule_loop clock k ps []). startswith_notify (j_id j)"
    by (simp add: filter_empty_conv)
  then show ?thesis by (intro filter_True) 
qed

lemma notify_jobs_reschedule:
  "filter (\<lambda>j. startswith_notify (j_id j)) (reschedule_queue_notifications clock db jobs)
     = schedule_loop clock 0
         (take NOTIFICATION_WINDOW (order_by_priority (filter (\<lambda>p. p_called p = False) db))) []"
  unfolding reschedule_split by (simp add: notify_schedule_loop_Nil)

lemma add_job_shift:
  "add_job (shift_job d j) (map (shift_job d) jobs) = map (shift_job d) (add_job j jobs)"
  by (simp add: add_job_def shift_job_def filter_map comp_def)

lemma schedule_loop_shift:
  "schedule_loop (\<lambda>i. clock i + d) k ps (map (shift_job d) jobs)
     = map (shift_job d) (schedule_loop clock k ps jobs)"
proof (induction ps arbitrary: k jobs)
  case Nil
  then show ?case by simp
next
  case (Cons p ps)
  have new: "\<lparr>j_id = i, j_run_date = t + d, j_args = a\<rparr> = shift_job d \<lparr>j_id = i, j_run_date = t, j_args = a\<rparr>"
    for i t a by (simp add: shift_job_def)
  show ?case
    by (simp add: Let_def add_job_shift [symmetric] new [symmetric] Cons.IH [symmetric] add.assoc add.commute add.left_commute)
qed

lemma run_dates_shift:
  assumes "\<forall>k. clock2 k = clock1 k + d"
  shows "map j_run_date (filter (\<lambda>j. startswith_notify (j_id j)) (reschedule_queue_notifications clock2 db jobs'))
     = map (\<lambda>t. t + d) (map j_run_date (filter (\<lambda>j. startswith_notify (j_id j)) (reschedule_queue_notifications clock1 db jobs)))"
proof -
  have c: "clock2 = (\<lambda>k. clock1 k + d)" using assms by auto
  have "schedule_loop clock2 0 ps [] = map (shift_job d) (schedule_loop clock1 0 ps [])" for ps
    unfolding c using schedule_loop_shift [of clock1 d 0 ps "[]"] by simp
  then show ?thesis
    by (simp add: notify_jobs_reschedule comp_def shift_job_def)
qed

lemma add_job_not_before:
  "t \<le> j_run_date j \<Longrightarrow> \<forall>k \<in> set jobs. t \<le> j_run_date k \<Longrightarrow>
     \<forall>k \<in> set (add_job j jobs). t \<le> j_run_date k"
  by (auto simp: add_job_def)

text \<open>
  With a clock that never runs backwards, no job is registered with a run date earlier
  than the first clock reading of the pass.
\<close>

lemma schedule_loop_not_before:
  assumes mono: "\<forall>i j. i \<le> j \<longrightarrow> clock i \<le> clock j"
  shows "k0 \<le> k \<Longrightarrow> \<forall>j \<in> set jobs. clock k0 \<le> j_run_date j \<Longrightarrow>
           \<forall>j \<in> set (schedule_loop clock k ps jobs). clock k0 \<le> j_run_date j"
proof (induction ps arbitrary: k jobs)
  case Nil
  then show ?case by simp
next
  case (Cons p ps)
  let ?nt = "clock k + (p_eta p - 5) * 60"
  have le: "clock k0 \<le> clock (k + 1)" "clock k0 \<le> clock (k + 2)"
    using mono Cons.prems(1) by simp_all
  show ?case
  proof (cases "?nt < clock (k + 1)")
    case True
    have "clock k0 \<le> clock (k + 2) + 30" using le by simp
    then have "\<forall>j \<in> set (add_job \<lparr>j_id = Notify (p_id p), j_run_date = clock (k + 2) + 30,
                     j_args = (p_id p, p_user_id p, p_lang_code p)\<rparr> jobs). clock k0 \<le> j_run_date j"
      using Cons.prems(2) by (intro add_job_not_before) simp_all
    then have "\<forall>j \<in> set (schedule_loop clock (k + 3) ps
        (add_job \<lparr>j_id = Notify (p_id p), j_run_date = clock (k + 2) + 30,
                     j_args = (p_id p, p_user_id p, p_lang_code p)\<rparr> jobs)). clock k0 \<le> j_run_date j"
      using Cons.prems(1) by (intro Cons.IH) simp_all
    then show ?thesis using True by (simp add: Let_def)
  next
    case False
    then have "clock k0 \<le> ?nt" using le by simp
    then have "\<forall>j \<in> set (add_job \<lparr>j_id = Notify (p_id p), j_run_date = ?nt,
                     j_args = (p_id p, p_user_id p, p_lang_code p)\<rparr> jobs). clock k0 \<le> j_run_date j"
      using Cons.prems(2) by (intro add_job_not_before) simp_all
    then have "\<forall>j \<in> set (schedule_loop clock (k + 2) ps
        (add_job \<lparr>j_id = Notify (p_id p), j_run_date = ?nt,
                     j_args = (p_id p, p_user_id p, p_lang_code p)\<rparr> jobs)). clock k0 \<le> j_run_date j"
      using Cons.prems(1) by (intro Cons.IH) simp_all
    then show ?thesis using False by (simp add: Let_def)
  qed
qed

text \<open>One pass of the loop, for a queue of one.\<close>

lemma schedule_loop_single:
  "schedule_loop clock k [p] [] =
     [\<lparr>j_id = Notify (p_id p),
       j_run_date = (if clock k + (p_eta p - 5) * 60 < clock (k + 1) then clock (k + 2) + 30
                     else clock k + (p_eta p - 5) * 60),
       j_args = (p_id p, p_user_id p, p_lang_code p)\<rparr>]"
  by (simp add: Let_def add_job_def)

text \<open>
  Claim C3 (fails on the code as stated). Every call removes all notification jobs and
  registers new ones whose run dates are computed from the clock readings of that call.
  When the clock has advanced between two calls on an unchanged queue, the run dates of
  the second call differ from those of the first: here by the 60 seconds between them.
\<close>

theorem reschedule_twice_churn_counterexample:
  "map j_run_date
     (reschedule_queue_notifications (constant_clock 1060)
        [\<lparr>p_id = 1, p_user_id = 11, p_name = ''Ann'', p_age = 40, p_symptoms = [''fever''],
          p_triage_score = 4, p_severity_level = ''Urgent'', p_eta = 20, p_queued_at = 100,
          p_called = False, p_lang_code = ''en''\<rparr>]
        (reschedule_queue_notifications (constant_clock 1000)
           [\<lparr>p_id = 1, p_user_id = 11, p_name = ''Ann'', p_age = 40, p_symptoms = [''fever''],
          p_triage_score = 4, p_severity_level = ''Urgent'', p_eta = 20, p_queued_at = 100,
          p_called = False, p_lang_code = ''en''\<rparr>] []))
   \<noteq> map j_run_date
       (reschedule_queue_notifications (constant_clock 1000)
          [\<lparr>p_id = 1, p_user_id = 11, p_name = ''Ann'', p_age = 40, p_symptoms = [''fever''],
          p_triage_score = 4, p_severity_level = ''Urgent'', p_eta = 20, p_queued_at = 100,
          p_called = False, p_lang_code = ''en''\<rparr>] [])"
  by code_simp

text \<open>
  Claim C3, amended. After two successive calls on an unchanged queue there is at most one
  notification job per entity, the notification jobs are exactly those of the first
  \<open>NOTIFICATION_WINDOW\<close> = 3 entities of the ordered non-served queue, and the job ids
  are the same as after the first call. The run dates are recomputed from the clock: when
  the second call reads the same instants as the first, the job store is unchanged; when
  every reading of the second call is \<open>d\<close> seconds later, every run date is \<open>d\<close> seconds
  later.
\<close>

theorem reschedule_twice_same_jobs:
  "distinct (map j_id (filter (\<lambda>j. startswith_notify (j_id j))
      (reschedule_queue_notifications clock2 db
         (reschedule_queue_notifications clock1 db jobs))))
   \<and> {i. Notify i \<in> j_id ` set (reschedule_queue_notifications clock2 db
         (reschedule_queue_notifications clock1 db jobs))}
       = p_id ` set (take NOTIFICATION_WINDOW
                       (order_by_priority (filter (\<lambda>p. p_called p = False) db)))
   \<and> map j_id (reschedule_queue_notifications clock2 db
         (reschedule_queue_notifications clock1 db jobs))
       = map j_id (reschedule_queue_notifications clock1 db jobs)
   \<and> ((\<forall>k. clock2 k = clock1 k) \<longrightarrow>
         reschedule_queue_notifications clock2 db
           (reschedule_queue_notifications clock1 db jobs)
         = reschedule_queue_notifications clock1 db jobs)
   \<and> ((\<forall>k. clock2 k = clock1 k + d) \<longrightarrow>
         map j_run_date (filter (\<lambda>j. startswith_notify (j_id j))
           (reschedule_queue_notifications clock2 db
              (reschedule_queue_notifications clock1 db jobs)))
         = map (\<lambda>t. t + d) (map j_run_date (filter (\<lambda>j. startswith_notify (j_id j))
             (reschedule_queue_notifications clock1 db jobs))))"
proof (intro conjI impI)
  show "distinct (map j_id (filter (\<lambda>j. startswith_notify (j_id j))
      (reschedule_queue_notifications clock2 db
         (reschedule_queue_notifications clock1 db jobs))))"
    by (rule distinct_notify_reschedule)
  show "{i. Notify i \<in> j_id ` set (reschedule_queue_notifications clock2 db
         (reschedule_queue_notifications clock1 db jobs))}
       = p_id ` set (take NOTIFICATION_WINDOW
                       (order_by_priority (filter (\<lambda>p. p_called p = False) db)))"
    by (rule notify_ids_reschedule)
  show "map j_id (reschedule_queue_notifications clock2 db
         (reschedule_queue_notifications clock1 db jobs))
       = map j_id (reschedule_queue_notifications clock1 db jobs)"
    unfolding reschedule_twice by (rule ids_reschedule_clock)
  show "reschedule_queue_notifications clock2 db
           (reschedule_queue_notifications clock1 db jobs)
         = reschedule_queue_notifications clock1 db jobs"
    if "\<forall>k. clock2 k = clock1 k"
  proof -
    have "clock2 = clock1" using that by auto
    then show ?thesis by (simp add: reschedule_twice)
  qed
  show "map j_run_date (filter (\<lambda>j. startswith_notify (j_id j))
           (reschedule_queue_notifications clock2 db
              (reschedule_queue_notifications clock1 db jobs)))
         = map (\<lambda>t. t + d) (map j_run_date (filter (\<lambda>j. startswith_notify (j_id j))
             (reschedule_queue_notifications clock1 db jobs)))"
    if "\<forall>k. clock2 k = clock1 k + d"
    using that by (rule run_dates_shift)
qed

theorem reschedule_twice_same_jobs_witness:
  "reschedule_queue_notifications (constant_clock 1000)
     [\<lparr>p_id = 1, p_user_id = 11, p_name = ''Ann'', p_age = 40, p_symptoms = [''fever''],
          p_triage_score = 4, p_severity_level = ''Urgent'', p_eta = 20, p_queued_at = 100,
          p_called = False, p_lang_code = ''en''\<rparr>]
     (reschedule_queue_notifications (constant_clock 1000)
        [\<lparr>p_id = 1, p_user_id = 11, p_name = ''Ann'', p_age = 40, p_symptoms = [''fever''],
          p_triage_score = 4, p_severity_level = ''Urgent'', p_eta = 20, p_queued_at = 100,
          p_called = False, p_lang_code = ''en''\<rparr>] [])
   = reschedule_queue_notifications (constant_clock 1000)
       [\<lparr>p_id = 1, p_user_id = 11, p_name = ''Ann'', p_age = 40, p_symptoms = [''fever''],
          p_triage_score = 4, p_severity_level = ''Urgent'', p_eta = 20, p_queued_at = 100,
          p_called = False, p_lang_code = ''en''\<rparr>] []
   \<and> reschedule_queue_notifications (constant_clock 1000)
       [\<lparr>p_id = 1, p_user_id = 11, p_name = ''Ann'', p_age = 40, p_symptoms = [''fever''],
          p_triage_score = 4, p_severity_level = ''Urgent'', p_eta = 20, p_queued_at = 100,
          p_called = False, p_lang_code = ''en''\<rparr>] []
     = [\<lparr>j_id = Notify 1, j_run_date = 1900, j_args = (1, 11, ''en'')\<rparr>]
   \<and> map j_run_date (filter (\<lambda>j. startswith_notify (j_id j))
       (reschedule_queue_notifications (constant_clock 1060)
          [\<lparr>p_id = 1, p_user_id = 11, p_name = ''Ann'', p_age = 40, p_symptoms = [''fever''],
          p_triage_score = 4, p_severity_level = ''Urgent'', p_eta = 20, p_queued_at = 100,
          p_called = False, p_lang_code = ''en''\<rparr>]
          (reschedule_queue_notifications (constant_clock 1000)
             [\<lparr>p_id = 1, p_user_id = 11, p_name = ''Ann'', p_age = 40, p_symptoms = [''fever''],
          p_triage_score = 4, p_severity_level = ''Urgent'', p_eta = 20, p_queued_at = 100,
          p_called = False, p_lang_code = ''en''\<rparr>] [])))
     = [1960]"
proof -
  let ?db = "[\<lparr>p_id = 1, p_user_id = 11, p_name = ''Ann'', p_age = 40, p_symptoms = [''fever''],
          p_triage_score = 4, p_severity_level = ''Urgent'', p_eta = 20, p_queued_at = 100,
          p_called = False, p_lang_code = ''en''\<rparr>]"
  note t = reschedule_twice_same_jobs [of "constant_clock 1000" ?db "constant_clock 1000" "[]"]
  have same: "\<forall>k. constant_clock 1000 k = constant_clock 1000 k" by simp
  have later: "\<forall>k. constant_clock 1060 k = constant_clock 1000 k + 60"
    by (simp add: constant_clock_def)
  have first: "reschedule_queue_notifications (constant_clock 1000) ?db []
     = [\<lparr>j_id = Notify 1, j_run_date = 1900, j_args = (1, 11, ''en'')\<rparr>]"
    by code_simp
  have idem: "reschedule_queue_notifications (constant_clock 1000) ?db
       (reschedule_queue_notifications (constant_clock 1000) ?db [])
     = reschedule_queue_notifications (constant_clock 1000) ?db []"
    using reschedule_twice_same_jobs [of "constant_clock 1000" ?db "constant_clock 1000" "[]"] same
    by blast
  have "map j_run_date (filter (\<lambda>j. startswith_notify (j_id j))
           (reschedule_queue_notifications (constant_clock 1060) ?db
              (reschedule_queue_notifications (constant_clock 1000) ?db [])))
         = map (\<lambda>t. t + 60) (map j_run_date (filter (\<lambda>j. startswith_notify (j_id j))
             (reschedule_queue_notifications (constant_clock 1000) ?db [])))"
    using reschedule_twice_same_jobs [of "constant_clock 1060" ?db "constant_clock 1000" "[]" 60] later
    by blast
  moreover have "map (\<lambda>t. t + 60) (map j_run_date (filter (\<lambda>j. startswith_notify (j_id j))
             (reschedule_queue_notifications (constant_clock 1000) ?db []))) = [1960]"
    by (simp add: first)
  ultimately have moved: "map j_run_date (filter (\<lambda>j. startswith_notify (j_id j))
       (reschedule_queue_notifications (constant_clock 1060) ?db
          (reschedule_queue_notifications (constant_clock 1000) ?db [])))
     = [1960]"
    by (rule trans)
  from idem first moved show ?thesis by blast
qed

text \<open>
  Claim C4 (fails on the code). The claim moves a notification time that is not strictly
  in the future to 30 seconds after now. The code moves it only when it is strictly
  before the second clock reading (\<open>notification_time < datetime.now()\<close>), although its
  comment says "Ensure it's in the future". For a patient with an ETA of 5 minutes and a
  clock that has not advanced between the two readings, the computed time equals now and
  the job is registered with that run date, not with now + 30 seconds.
\<close>

theorem reschedule_boundary_not_clamped:
  "reschedule_queue_notifications (constant_clock 1000)
     [\<lparr>p_id = 2, p_user_id = 12, p_name = ''Bob'', p_age = 40, p_symptoms = [''fever''],
          p_triage_score = 9, p_severity_level = ''Critical'', p_eta = 5, p_queued_at = 200,
          p_called = False, p_lang_code = ''en''\<rparr>] []
   = [\<lparr>j_id = Notify 2, j_run_date = 1000, j_args = (2, 12, ''en'')\<rparr>]"
  by code_simp

section \<open>Properties of admission\<close>

lemma symptom_loop_upper:
  assumes "\<forall>(k, b) \<in> set m. 0 \<le> b"
  shows "symptom_loop ns m sc \<le> sc + sum_list (map snd m)"
  using assms unfolding symptom_loop_def
proof (induction m arbitrary: sc)
  case Nil
  then show ?case by simp
next
  case (Cons kb m)
  obtain k b where kb: "kb = (k, b)" by (cases kb)
  have b: "0 \<le> b" using Cons.prems kb by simp
  have rest: "\<forall>(k, b) \<in> set m. 0 \<le> b" using Cons.prems by simp
  show ?case
    using Cons.IH [OF rest, of "if k \<in> set ns then sc + b else sc"] kb b by auto
qed

lemma category_loop_table_upper: "category_loop ns SYMPTOM_SEVERITY sc \<le> sc + 82"
proof -
  have w: "\<forall>(k, b) \<in> set m. 0 \<le> b" if "(c, m) \<in> set SYMPTOM_SEVERITY" for c m
    using table_weights_nonneg that by blast
  let ?c = "[(''shortness of breath'', 8), (''chest pain'', 7), (''severe pain'', 7),
          (''difficulty breathing'', 8), (''unconsciousness'', 10), (''sudden weakness'', 7 :: int)]"
  let ?u = "[(''fever'', 4), (''persistent cough'', 3), (''abdominal pain'', 5),
          (''headache with fever'', 5), (''vomiting'', 3), (''diarrhea'', 3),
          (''dizziness'', 4 :: int)]"
  let ?s = "[(''headache'', 2), (''nausea'', 2), (''mild pain'', 2), (''sore throat'', 1),
          (''runny nose'', 1 :: int)]"
  have c: "symptom_loop ns ?c x \<le> x + 47" for x
    using symptom_loop_upper [of ?c ns x] w [of "''critical''" ?c]
    by (simp add: SYMPTOM_SEVERITY_def)
  have u: "symptom_loop ns ?u x \<le> x + 27" for x
    using symptom_loop_upper [of ?u ns x] w [of "''urgent''" ?u]
    by (simp add: SYMPTOM_SEVERITY_def)
  have s: "symptom_loop ns ?s x \<le> x + 8" for x
    using symptom_loop_upper [of ?s ns x] w [of "''stable''" ?s]
    by (simp add: SYMPTOM_SEVERITY_def)
  have "category_loop ns SYMPTOM_SEVERITY sc
          = symptom_loop ns ?s (symptom_loop ns ?u (symptom_loop ns ?c sc))"
    by (simp add: category_loop_def SYMPTOM_SEVERITY_def)
  also have "\<dots> \<le> symptom_loop ns ?u (symptom_loop ns ?c sc) + 8" by (rule s)
  also have "\<dots> \<le> symptom_loop ns ?c sc + 27 + 8" using u [of "symptom_loop ns ?c sc"] by simp
  also have "\<dots> \<le> sc + 47 + 27 + 8" using c [of sc] by simp
  finally show ?thesis by simp
qed

text \<open>The triage score always fits its column.\<close>

lemma get_triage_score_upper: "get_triage_score symptoms age \<le> 97"
proof -
  let ?n = "map (\<lambda>s. strip (lower s)) symptoms"
  let ?a = "if age < 1 then 5 else if age < 18 then 2 else if age \<ge> 65 then 4 else (0 :: int)"
  have "category_loop ?n SYMPTOM_SEVERITY ?a \<le> ?a + 82"
    by (rule category_loop_table_upper)
  moreover have "?a \<le> 5" by simp
  ultimately have "category_loop ?n SYMPTOM_SEVERITY ?a \<le> 87" by linarith
  then show ?thesis
    unfolding get_triage_score_def Let_def by (simp split: if_splits)
qed

lemma sqlite_integer_triage_score: "sqlite_integer (get_triage_score symptoms age)"
proof -
  have "0 \<le> get_triage_score symptoms age"
    by (simp add: get_triage_score_def Let_def)
  then show ?thesis
    using get_triage_score_upper [of symptoms age] by (simp add: sqlite_integer_def)
qed

lemma find_user_id:
  assumes "distinct (map p_user_id db)" "existing \<in> set db"
  shows "find (\<lambda>r. p_user_id r = p_user_id existing) db = Some existing"
  using assms
proof (induction db)
  case Nil
  then show ?case by simp
next
  case (Cons r db)
  then show ?case by (auto simp: image_iff)
qed

text \<open>A user id, an age or an ETA that does not fit its column: nothing is written.\<close>

lemma create_patient_overflow:
  assumes "\<not> sqlite_integer (pc_user_id patient) \<or> \<not> sqlite_integer (pc_age patient)
           \<or> \<not> sqlite_integer
                 (pr_predicted_wait_time
          (predict_waiting_time h
             \<lparr>pd_severity_level =
                Some (StrV (get_severity_level
                              (get_triage_score (pc_symptoms patient) (pc_age patient)))),
              pd_symptoms = Some (ListV (map StrV (pc_symptoms patient))),
              pd_age = Some (IntV (pc_age patient))\<rparr>
             (map queue_entry_of (filter (\<lambda>p. p_called p = False) db)) now))"
  shows "create_patient h now insert_time patient db = (db, Inl OverflowError)"
  using assms by (auto simp: create_patient_def Let_def split: option.splits)

lemma create_patient_table_unchanged_on_error:
  "snd (create_patient h now insert_time patient db) = Inl e \<Longrightarrow>
     fst (create_patient h now insert_time patient db) = db"
  by (auto simp: create_patient_def Let_def split: option.splits if_splits)

lemma create_patient_existing:
  assumes "find (\<lambda>r. p_user_id r = pc_user_id patient) db = Some existing"
    and "sqlite_integer (pc_user_id patient)" and "sqlite_integer (pc_age patient)"
    and "sqlite_integer
           (pr_predicted_wait_time
          (predict_waiting_time h
             \<lparr>pd_severity_level =
                Some (StrV (get_severity_level
                              (get_triage_score (pc_symptoms patient) (pc_age patient)))),
              pd_symptoms = Some (ListV (map StrV (pc_symptoms patient))),
              pd_age = Some (IntV (pc_age patient))\<rparr>
             (map queue_entry_of (filter (\<lambda>p. p_called p = False) db)) now))"
  shows "create_patient h now insert_time patient db =
           (map (\<lambda>r. if p_id r = p_id existing
                    then r \<lparr>p_name := pc_name patient,
                    p_age := pc_age patient,
                    p_symptoms := pc_symptoms patient,
                    p_triage_score := get_triage_score (pc_symptoms patient) (pc_age patient),
                    p_severity_level :=
                      get_severity_level (get_triage_score (pc_symptoms patient) (pc_age patient)),
                    p_eta :=
                      pr_predicted_wait_time
                      (predict_waiting_time h
                         \<lparr>pd_severity_level =
                            Some (StrV (get_severity_level
                                          (get_triage_score (pc_symptoms patient) (pc_age patient)))),
                          pd_symptoms = Some (ListV (map StrV (pc_symptoms patient))),
                          pd_age = Some (IntV (pc_age patient))\<rparr>
                         (map queue_entry_of (filter (\<lambda>p. p_called p = False) db)) now),
                    p_lang_code := pc_lang_code patient\<rparr>
                    else r) db,
            Inr (p_id existing,
                 pr_predicted_wait_time
          (predict_waiting_time h
             \<lparr>pd_severity_level =
                Some (StrV (get_severity_level
                              (get_triage_score (pc_symptoms patient) (pc_age patient)))),
              pd_symptoms = Some (ListV (map StrV (pc_symptoms patient))),
              pd_age = Some (IntV (pc_age patient))\<rparr>
             (map queue_entry_of (filter (\<lambda>p. p_called p = False) db)) now),
                 get_severity_level (get_triage_score (pc_symptoms patient) (pc_age patient))))"
  using assms by (simp add: create_patient_def Let_def sqlite_integer_triage_score)

lemma update_row_frame:
  assumes "\<And>r. f (u r) = f r"
  shows "map f (map (\<lambda>r. if p_id r = i then u r else r) rows) = map f rows"
  by (induction rows) (simp_all add: assms)

lemma create_patient_user_ids:
  assumes "distinct (map p_user_id db)"
  shows "distinct (map p_user_id (fst (create_patient h now insert_time patient db)))"
proof (cases "sqlite_integer (pc_user_id patient) \<and> sqlite_integer (pc_age patient)
              \<and> sqlite_integer
                  (pr_predicted_wait_time
          (predict_waiting_time h
             \<lparr>pd_severity_level =
                Some (StrV (get_severity_level
                              (get_triage_score (pc_symptoms patient) (pc_age patient)))),
              pd_symptoms = Some (ListV (map StrV (pc_symptoms patient))),
              pd_age = Some (IntV (pc_age patient))\<rparr>
             (map queue_entry_of (filter (\<lambda>p. p_called p = False) db)) now))")
  case False
  then have "create_patient h now insert_time patient db = (db, Inl OverflowError)"
    by (intro create_patient_overflow) blast
  then show ?thesis using assms by simp
next
  case True
  show ?thesis
  proof (cases "find (\<lambda>r. p_user_id r = pc_user_id patient) db")
    case None
    then have "pc_user_id patient \<notin> p_user_id ` set db"
      by (auto simp: find_None_iff)
    then show ?thesis
      using assms None by (simp add: create_patient_def Let_def)
  next
    case (Some existing)
    note result = create_patient_existing [OF Some, of h now insert_time]
    have "map p_user_id (fst (create_patient h now insert_time patient db)) = map p_user_id db"
      using True unfolding result [OF True [THEN conjunct1] True [THEN conjunct2, THEN conjunct1]
          True [THEN conjunct2, THEN conjunct2]] fst_conv
      by (intro update_row_frame) simp
    then show ?thesis using assms by simp
  qed
qed

lemma update_row_others:
  assumes "\<And>r. p_id (u r) = p_id r"
  shows "filter (\<lambda>r. p_id r \<noteq> i) (map (\<lambda>r. if p_id r = i then u r else r) rows)
           = filter (\<lambda>r. p_id r \<noteq> i) rows"
  by (induction rows) (simp_all add: assms)

lemma update_row_target:
  assumes "\<And>r. p_id (u r) = p_id r"
  shows "filter (\<lambda>r. p_id r = i) (map (\<lambda>r. if p_id r = i then u r else r) rows)
           = map u (filter (\<lambda>r. p_id r = i) rows)"
  by (induction rows) (simp_all add: assms)

lemma filter_primary_key:
  assumes "distinct (map p_id rows)" "existing \<in> set rows"
  shows "filter (\<lambda>r. p_id r = p_id existing) rows = [existing]"
  using assms
proof (induction rows)
  case Nil
  then show ?case by simp
next
  case (Cons r rows)
  then show ?case by (auto simp: image_iff filter_empty_conv)
qed

text \<open>
  Claim C10. Admitting an entity whose \<open>user_id\<close> is already in the table (whose keys
  \<open>id\<close> and \<open>user_id\<close> are unique) never adds a row: the ids, user ids, arrival times
  \<open>queued_at\<close> and \<open>called\<close> flags of all rows stay as they were, every other row is
  unchanged, and \<open>user_id\<close> stays unique, so the re-admitted entity keeps the arrival
  time that breaks ties in the queue order. When the user id, the age and the ETA fit the
  64-bit integer columns, the row of that user gets the new name, age, symptoms, triage
  score, severity level, ETA and language, and the response carries the id of the
  existing row. When one of them does not fit, the request ends with \<open>OverflowError\<close>
  and the table is as it was.
\<close>

theorem create_patient_updates_in_place:
  assumes "distinct (map p_id db)" and "distinct (map p_user_id db)"
    and "existing \<in> set db" and "p_user_id existing = pc_user_id patient"
  shows "length (fst (create_patient h now insert_time patient db)) = length db
    \<and> map p_id (fst (create_patient h now insert_time patient db)) = map p_id db
    \<and> map p_user_id (fst (create_patient h now insert_time patient db)) = map p_user_id db
    \<and> map p_queued_at (fst (create_patient h now insert_time patient db)) = map p_queued_at db
    \<and> map p_called (fst (create_patient h now insert_time patient db)) = map p_called db
    \<and> distinct (map p_user_id (fst (create_patient h now insert_time patient db)))
    \<and> filter (\<lambda>r. p_id r \<noteq> p_id existing) (fst (create_patient h now insert_time patient db))
        = filter (\<lambda>r. p_id r \<noteq> p_id existing) db
    \<and> (sqlite_integer (pc_user_id patient) \<and> sqlite_integer (pc_age patient)
          \<and> sqlite_integer
               (pr_predicted_wait_time
          (predict_waiting_time h
             \<lparr>pd_severity_level =
                Some (StrV (get_severity_level
                              (get_triage_score (pc_symptoms patient) (pc_age patient)))),
              pd_symptoms = Some (ListV (map StrV (pc_symptoms patient))),
              pd_age = Some (IntV (pc_age patient))\<rparr>
             (map queue_entry_of (filter (\<lambda>p. p_called p = False) db)) now))
         \<longrightarrow>
           filter (\<lambda>r. p_id r = p_id existing) (fst (create_patient h now insert_time patient db))
             = [existing \<lparr>p_name := pc_name patient,
                    p_age := pc_age patient,
                    p_symptoms := pc_symptoms patient,
                    p_triage_score := get_triage_score (pc_symptoms patient) (pc_age patient),
                    p_severity_level :=
                      get_severity_level (get_triage_score (pc_symptoms patient) (pc_age patient)),
                    p_eta :=
                      pr_predicted_wait_time
                      (predict_waiting_time h
                         \<lparr>pd_severity_level =
                            Some (StrV (get_severity_level
                                          (get_triage_score (pc_symptoms patient) (pc_age patient)))),
                          pd_symptoms = Some (ListV (map StrV (pc_symptoms patient))),
                          pd_age = Some (IntV (pc_age patient))\<rparr>
                         (map queue_entry_of (filter (\<lambda>p. p_called p = False) db)) now),
                    p_lang_code := pc_lang_code patient\<rparr>]
           \<and> snd (create_patient h now insert_time patient db) =
               Inr (p_id existing,
                    pr_predicted_wait_time
          (predict_waiting_time h
             \<lparr>pd_severity_level =
                Some (StrV (get_severity_level
                              (get_triage_score (pc_symptoms patient) (pc_age patient)))),
              pd_symptoms = Some (ListV (map StrV (pc_symptoms patient))),
              pd_age = Some (IntV (pc_age patient))\<rparr>
             (map queue_entry_of (filter (\<lambda>p. p_called p = False) db)) now),
                    get_severity_level (get_triage_score (pc_symptoms patient) (pc_age patient))))
    \<and> (\<not> (sqlite_integer (pc_user_id patient) \<and> sqlite_integer (pc_age patient)
          \<and> sqlite_integer
               (pr_predicted_wait_time
          (predict_waiting_time h
             \<lparr>pd_severity_level =
                Some (StrV (get_severity_level
                              (get_triage_score (pc_symptoms patient) (pc_age patient)))),
              pd_symptoms = Some (ListV (map StrV (pc_symptoms patient))),
              pd_age = Some (IntV (pc_age patient))\<rparr>
             (map queue_entry_of (filter (\<lambda>p. p_called p = False) db)) now)))
         \<longrightarrow> create_patient h now insert_time patient db = (db, Inl OverflowError))"
proof (cases "sqlite_integer (pc_user_id patient) \<and> sqlite_integer (pc_age patient)
          \<and> sqlite_integer
               (pr_predicted_wait_time
          (predict_waiting_time h
             \<lparr>pd_severity_level =
                Some (StrV (get_severity_level
                              (get_triage_score (pc_symptoms patient) (pc_age patient)))),
              pd_symptoms = Some (ListV (map StrV (pc_symptoms patient))),
              pd_age = Some (IntV (pc_age patient))\<rparr>
             (map queue_entry_of (filter (\<lambda>p. p_called p = False) db)) now))")
  case False
  then have "create_patient h now insert_time patient db = (db, Inl OverflowError)"
    by (intro create_patient_overflow) blast
  then show ?thesis using False assms(2) by simp
next
  case True
  let ?upd = "\<lambda>r. r \<lparr>p_name := pc_name patient,
                    p_age := pc_age patient,
                    p_symptoms := pc_symptoms patient,
                    p_triage_score := get_triage_score (pc_symptoms patient) (pc_age patient),
                    p_severity_level :=
                      get_severity_level (get_triage_score (pc_symptoms patient) (pc_age patient)),
                    p_eta :=
                      pr_predicted_wait_time
                      (predict_waiting_time h
                         \<lparr>pd_severity_level =
                            Some (StrV (get_severity_level
                                          (get_triage_score (pc_symptoms patient) (pc_age patient)))),
                          pd_symptoms = Some (ListV (map StrV (pc_symptoms patient))),
                          pd_age = Some (IntV (pc_age patient))\<rparr>
                         (map queue_entry_of (filter (\<lambda>p. p_called p = False) db)) now),
                    p_lang_code := pc_lang_code patient\<rparr>"
  let ?db' = "fst (create_patient h now insert_time patient db)"
  have found: "find (\<lambda>r. p_user_id r = pc_user_id patient) db = Some existing"
    using find_user_id [OF assms(2,3)] assms(4) by simp
  note result = create_patient_existing [OF found True [THEN conjunct1]
      True [THEN conjunct2, THEN conjunct1] True [THEN conjunct2, THEN conjunct2], of insert_time]
  have db': "?db' = map (\<lambda>r. if p_id r = p_id existing then ?upd r else r) db"
    unfolding result by simp
  have only: "filter (\<lambda>r. p_id r = p_id existing) db = [existing]"
    using assms(1,3) by (rule filter_primary_key)
  have f0: "length ?db' = length db" unfolding db' by simp
  have f1: "map p_id ?db' = map p_id db" unfolding db' by (rule update_row_frame) simp
  have f2: "map p_user_id ?db' = map p_user_id db" unfolding db' by (rule update_row_frame) simp
  have f3: "map p_queued_at ?db' = map p_queued_at db" unfolding db' by (rule update_row_frame) simp
  have f4: "map p_called ?db' = map p_called db" unfolding db' by (rule update_row_frame) simp
  have f5: "filter (\<lambda>r. p_id r \<noteq> p_id existing) ?db' = filter (\<lambda>r. p_id r \<noteq> p_id existing) db"
    unfolding db' by (rule update_row_others) simp
  have "filter (\<lambda>r. p_id r = p_id existing) ?db' = map ?upd (filter (\<lambda>r. p_id r = p_id existing) db)"
    unfolding db' by (rule update_row_target) simp
  then have f6: "filter (\<lambda>r. p_id r = p_id existing) ?db' = [?upd existing]"
    by (simp add: only)
  have f7: "snd (create_patient h now insert_time patient db) =
        Inr (p_id existing,
             pr_predicted_wait_time
          (predict_waiting_time h
             \<lparr>pd_severity_level =
                Some (StrV (get_severity_level
                              (get_triage_score (pc_symptoms patient) (pc_age patient)))),
              pd_symptoms = Some (ListV (map StrV (pc_symptoms patient))),
              pd_age = Some (IntV (pc_age patient))\<rparr>
             (map queue_entry_of (filter (\<lambda>p. p_called p = False) db)) now),
             get_severity_level (get_triage_score (pc_symptoms patient) (pc_age patient)))"
    unfolding result by simp
  have f8: "distinct (map p_user_id ?db')" using f2 assms(2) by simp
  from f0 f1 f2 f3 f4 f8 f5 f6 f7 True show ?thesis by blast
qed

theorem create_patient_updates_in_place_witness:
  "distinct (map p_id
     [\<lparr>p_id = 1, p_user_id = 11, p_name = ''Ann'', p_age = 40, p_symptoms = [''fever''],
        p_triage_score = 4, p_severity_level = ''Urgent'', p_eta = 20, p_queued_at = 100,
        p_called = False, p_lang_code = ''en''\<rparr>,
      \<lparr>p_id = 2, p_user_id = 12, p_name = ''Bob'', p_age = 30, p_symptoms = [''nausea''],
        p_triage_score = 2, p_severity_level = ''Stable'', p_eta = 9, p_queued_at = 200,
        p_called = False, p_lang_code = ''en''\<rparr>])
   \<and> distinct (map p_user_id
     [\<lparr>p_id = 1, p_user_id = 11, p_name = ''Ann'', p_age = 40, p_symptoms = [''fever''],
        p_triage_score = 4, p_severity_level = ''Urgent'', p_eta = 20, p_queued_at = 100,
        p_called = False, p_lang_code = ''en''\<rparr>,
      \<lparr>p_id = 2, p_user_id = 12, p_name = ''Bob'', p_age = 30, p_symptoms = [''nausea''],
        p_triage_score = 2, p_severity_level = ''Stable'', p_eta = 9, p_queued_at = 200,
        p_called = False, p_lang_code = ''en''\<rparr>])
   \<and> p_user_id
       \<lparr>p_id = 2, p_user_id = 12, p_name = ''Bob'', p_age = 30, p_symptoms = [''nausea''],
        p_triage_score = 2, p_severity_level = ''Stable'', p_eta = 9, p_queued_at = 200,
        p_called = False, p_lang_code = ''en''\<rparr>
     = pc_user_id
       \<lparr>pc_user_id = 12, pc_name = ''Robert'', pc_age = 70, pc_symptoms = [''chest pain''],
        pc_lang_code = ''fr''\<rparr>
   \<and> sqlite_integer 12 \<and> sqlite_integer 70 \<and> sqlite_integer 2
   \<and> create_patient [] \<lparr>dt_instant = 5000, dt_hour = 14, dt_day_name = ''Thursday''\<rparr> 9000
       \<lparr>pc_user_id = 12, pc_name = ''Robert'', pc_age = 70, pc_symptoms = [''chest pain''],
        pc_lang_code = ''fr''\<rparr>
       [\<lparr>p_id = 1, p_user_id = 11, p_name = ''Ann'', p_age = 40, p_symptoms = [''fever''],
        p_triage_score = 4, p_severity_level = ''Urgent'', p_eta = 20, p_queued_at = 100,
        p_called = False, p_lang_code = ''en''\<rparr>,
        \<lparr>p_id = 2, p_user_id = 12, p_name = ''Bob'', p_age = 30, p_symptoms = [''nausea''],
        p_triage_score = 2, p_severity_level = ''Stable'', p_eta = 9, p_queued_at = 200,
        p_called = False, p_lang_code = ''en''\<rparr>]
     = ([\<lparr>p_id = 1, p_user_id = 11, p_name = ''Ann'', p_age = 40, p_symptoms = [''fever''],
        p_triage_score = 4, p_severity_level = ''Urgent'', p_eta = 20, p_queued_at = 100,
        p_called = False, p_lang_code = ''en''\<rparr>,
         \<lparr>p_id = 2, p_user_id = 12, p_name = ''Robert'', p_age = 70, p_symptoms = [''chest pain''],
        p_triage_score = 11, p_severity_level = ''Critical'', p_eta = 2, p_queued_at = 200,
        p_called = False, p_lang_code = ''fr''\<rparr>],
        Inr (2, 2, ''Critical''))
   \<and> map p_queued_at (fst (create_patient [] \<lparr>dt_instant = 5000, dt_hour = 14, dt_day_name = ''Thursday''\<rparr> 9000
       \<lparr>pc_user_id = 12, pc_name = ''Robert'', pc_age = 70, pc_symptoms = [''chest pain''],
        pc_lang_code = ''fr''\<rparr>
       [\<lparr>p_id = 1, p_user_id = 11, p_name = ''Ann'', p_age = 40, p_symptoms = [''fever''],
        p_triage_score = 4, p_severity_level = ''Urgent'', p_eta = 20, p_queued_at = 100,
        p_called = False, p_lang_code = ''en''\<rparr>,
        \<lparr>p_id = 2, p_user_id = 12, p_name = ''Bob'', p_age = 30, p_symptoms = [''nausea''],
        p_triage_score = 2, p_severity_level = ''Stable'', p_eta = 9, p_queued_at = 200,
        p_called = False, p_lang_code = ''en''\<rparr>])) = [100, 200]
   \<and> \<not> sqlite_integer 9223372036854775808
   \<and> create_patient [] \<lparr>dt_instant = 5000, dt_hour = 14, dt_day_name = ''Thursday''\<rparr> 9000
       \<lparr>pc_user_id = 12, pc_name = ''Robert'', pc_age = 9223372036854775808,
        pc_symptoms = [''chest pain''], pc_lang_code = ''fr''\<rparr>
       [\<lparr>p_id = 1, p_user_id = 11, p_name = ''Ann'', p_age = 40, p_symptoms = [''fever''],
        p_triage_score = 4, p_severity_level = ''Urgent'', p_eta = 20, p_queued_at = 100,
        p_called = False, p_lang_code = ''en''\<rparr>,
        \<lparr>p_id = 2, p_user_id = 12, p_name = ''Bob'', p_age = 30, p_symptoms = [''nausea''],
        p_triage_score = 2, p_severity_level = ''Stable'', p_eta = 9, p_queued_at = 200,
        p_called = False, p_lang_code = ''en''\<rparr>]
     = ([\<lparr>p_id = 1, p_user_id = 11, p_name = ''Ann'', p_age = 40, p_symptoms = [''fever''],
        p_triage_score = 4, p_severity_level = ''Urgent'', p_eta = 20, p_queued_at = 100,
        p_called = False, p_lang_code = ''en''\<rparr>,
         \<lparr>p_id = 2, p_user_id = 12, p_name = ''Bob'', p_age = 30, p_symptoms = [''nausea''],
        p_triage_score = 2, p_severity_level = ''Stable'', p_eta = 9, p_queued_at = 200,
        p_called = False, p_lang_code = ''en''\<rparr>],
        Inl OverflowError)"
proof -
  let ?a = "\<lparr>p_id = 1, p_user_id = 11, p_name = ''Ann'', p_age = 40, p_symptoms = [''fever''],
        p_triage_score = 4, p_severity_level = ''Urgent'', p_eta = 20, p_queued_at = 100,
        p_called = False, p_lang_code = ''en''\<rparr>"
  let ?b = "\<lparr>p_id = 2, p_user_id = 12, p_name = ''Bob'', p_age = 30, p_symptoms = [''nausea''],
        p_triage_score = 2, p_severity_level = ''Stable'', p_eta = 9, p_queued_at = 200,
        p_called = False, p_lang_code = ''en''\<rparr>"
  let ?b' = "\<lparr>p_id = 2, p_user_id = 12, p_name = ''Robert'', p_age = 70, p_symptoms = [''chest pain''],
        p_triage_score = 11, p_severity_level = ''Critical'', p_eta = 2, p_queued_at = 200,
        p_called = False, p_lang_code = ''fr''\<rparr>"
  let ?pc = "\<lparr>pc_user_id = 12, pc_name = ''Robert'', pc_age = 70, pc_symptoms = [''chest pain''],
        pc_lang_code = ''fr''\<rparr>"
  let ?big = "\<lparr>pc_user_id = 12, pc_name = ''Robert'', pc_age = 9223372036854775808,
        pc_symptoms = [''chest pain''], pc_lang_code = ''fr''\<rparr>"
  let ?now = "\<lparr>dt_instant = 5000, dt_hour = 14, dt_day_name = ''Thursday''\<rparr>"
  have ids: "distinct (map p_id [?a, ?b])" by simp
  have users: "distinct (map p_user_id [?a, ?b])" by simp
  have mem: "?b \<in> set [?a, ?b]" by simp
  have user: "p_user_id ?b = pc_user_id ?pc" by simp
  have user_big: "p_user_id ?b = pc_user_id ?big" by simp
  have fits: "sqlite_integer 12" "sqlite_integer 70" "sqlite_integer 2"
    by (simp_all add: sqlite_integer_def)
  have too_big: "\<not> sqlite_integer 9223372036854775808"
    by (simp add: sqlite_integer_def)
  have eta: "(pr_predicted_wait_time
          (predict_waiting_time []
             \<lparr>pd_severity_level =
                Some (StrV (get_severity_level
                              (get_triage_score (pc_symptoms ?pc) (pc_age ?pc)))),
              pd_symptoms = Some (ListV (map StrV (pc_symptoms ?pc))),
              pd_age = Some (IntV (pc_age ?pc))\<rparr>
             (map queue_entry_of (filter (\<lambda>p. p_called p = False) [?a, ?b])) ?now)) = 2"
    by code_simp
  have level: "get_severity_level (get_triage_score (pc_symptoms ?pc) (pc_age ?pc)) = ''Critical''"
    by code_simp
  have fits_all: "sqlite_integer (pc_user_id ?pc) \<and> sqlite_integer (pc_age ?pc)
      \<and> sqlite_integer (pr_predicted_wait_time
          (predict_waiting_time []
             \<lparr>pd_severity_level =
                Some (StrV (get_severity_level
                              (get_triage_score (pc_symptoms ?pc) (pc_age ?pc)))),
              pd_symptoms = Some (ListV (map StrV (pc_symptoms ?pc))),
              pd_age = Some (IntV (pc_age ?pc))\<rparr>
             (map queue_entry_of (filter (\<lambda>p. p_called p = False) [?a, ?b])) ?now))"
    unfolding eta using fits by simp
  note t = create_patient_updates_in_place [OF ids users mem user, of "[]" ?now 9000]
  have others: "filter (\<lambda>r. p_id r \<noteq> p_id ?b) (fst (create_patient [] ?now 9000 ?pc [?a, ?b]))
      = filter (\<lambda>r. p_id r \<noteq> p_id ?b) [?a, ?b]"
    using t by blast
  have response: "snd (create_patient [] ?now 9000 ?pc [?a, ?b]) =
      Inr (p_id ?b,
           (pr_predicted_wait_time
          (predict_waiting_time []
             \<lparr>pd_severity_level =
                Some (StrV (get_severity_level
                              (get_triage_score (pc_symptoms ?pc) (pc_age ?pc)))),
              pd_symptoms = Some (ListV (map StrV (pc_symptoms ?pc))),
              pd_age = Some (IntV (pc_age ?pc))\<rparr>
             (map queue_entry_of (filter (\<lambda>p. p_called p = False) [?a, ?b])) ?now)),
           get_severity_level (get_triage_score (pc_symptoms ?pc) (pc_age ?pc)))"
    using t fits_all by blast
  have response': "snd (create_patient [] ?now 9000 ?pc [?a, ?b]) = Inr (2, 2, ''Critical'')"
    using response [unfolded eta, unfolded level] by simp
  have table: "fst (create_patient [] ?now 9000 ?pc [?a, ?b]) = [?a, ?b']"
    by code_simp
  have val: "create_patient [] ?now 9000 ?pc [?a, ?b] = ([?a, ?b'], Inr (2, 2, ''Critical''))"
    using table response' by (simp add: prod_eq_iff)
  have "map p_queued_at (fst (create_patient [] ?now 9000 ?pc [?a, ?b])) = map p_queued_at [?a, ?b]"
    using t by blast
  then have arrival: "map p_queued_at (fst (create_patient [] ?now 9000 ?pc [?a, ?b])) = [100, 200]"
    by simp
  have "\<not> sqlite_integer (pc_age ?big)" using too_big by simp
  then have overflow: "create_patient [] ?now 9000 ?big [?a, ?b] = ([?a, ?b], Inl OverflowError)"
    using create_patient_updates_in_place [OF ids users mem user_big, of "[]" ?now 9000]
    by blast
  from ids users user fits val arrival too_big overflow show ?thesis by blast
qed

text \<open>
  An age of \<open>2^63\<close> does not fit the column: the commit raises and the row of the user is
  as it was.
\<close>

lemma create_patient_overflow_example:
  "create_patient [] \<lparr>dt_instant = 5000, dt_hour = 14, dt_day_name = ''Thursday''\<rparr> 9000
     \<lparr>pc_user_id = 12, pc_name = ''Robert'', pc_age = 9223372036854775808,
        pc_symptoms = [''chest pain''], pc_lang_code = ''fr''\<rparr>
     [\<lparr>p_id = 1, p_user_id = 11, p_name = ''Ann'', p_age = 40, p_symptoms = [''fever''],
        p_triage_score = 4, p_severity_level = ''Urgent'', p_eta = 20, p_queued_at = 100,
        p_called = False, p_lang_code = ''en''\<rparr>,
      \<lparr>p_id = 2, p_user_id = 12, p_name = ''Bob'', p_age = 30, p_symptoms = [''nausea''],
        p_triage_score = 2, p_severity_level = ''Stable'', p_eta = 9, p_queued_at = 200,
        p_called = False, p_lang_code = ''en''\<rparr>]
   = ([\<lparr>p_id = 1, p_user_id = 11, p_name = ''Ann'', p_age = 40, p_symptoms = [''fever''],
        p_triage_score = 4, p_severity_level = ''Urgent'', p_eta = 20, p_queued_at = 100,
        p_called = False, p_lang_code = ''en''\<rparr>,
       \<lparr>p_id = 2, p_user_id = 12, p_name = ''Bob'', p_age = 30, p_symptoms = [''nausea''],
        p_triage_score = 2, p_severity_level = ''Stable'', p_eta = 9, p_queued_at = 200,
        p_called = False, p_lang_code = ''en''\<rparr>],
      Inl OverflowError)"
  by code_simp

end
